theory Spec2Isabelle
  imports Complex_Main
begin

section \<open>Numbers\<close>

text \<open>
  The program computes with JavaScript numbers. They are modelled as real numbers:
  rounding of IEEE doubles is not modelled, and every number that enters a function
  is taken to be finite. The two values a division by zero produces, an infinity or
  NaN, are modelled where the source divides without a guard (type \<open>jsnum\<close>
  below); a guarded division is an ordinary real division.
\<close>

section \<open>Decoding: candidates and per-class suppression\<close>

text \<open>
  The element type of the arrays that \<^verbatim>\<open>parseYoloOnnxOutputCorrect\<close> returns and
  \<^verbatim>\<open>applyNMS\<close> consumes: \<^verbatim>\<open>{ x, y, w, h, classId, confidence }\<close>.
\<close>

record Candidate =
  cand_x :: real
  cand_y :: real
  cand_w :: real
  cand_h :: real
  classId :: int
  cand_confidence :: real

text \<open>\<^verbatim>\<open>calculateIoU(box1, box2)\<close> of the detector, on centre and size.\<close>

definition calculateIoU :: "Candidate \<Rightarrow> Candidate \<Rightarrow> real" where
  "calculateIoU box1 box2 =
     (let x1_min = cand_x box1 - cand_w box1 / 2;
          y1_min = cand_y box1 - cand_h box1 / 2;
          x1_max = cand_x box1 + cand_w box1 / 2;
          y1_max = cand_y box1 + cand_h box1 / 2;
          x2_min = cand_x box2 - cand_w box2 / 2;
          y2_min = cand_y box2 - cand_h box2 / 2;
          x2_max = cand_x box2 + cand_w box2 / 2;
          y2_max = cand_y box2 + cand_h box2 / 2;
          intersectionXMin = max x1_min x2_min;
          intersectionYMin = max y1_min y2_min;
          intersectionXMax = min x1_max x2_max;
          intersectionYMax = min y1_max y2_max;
          intersectionWidth = max 0 (intersectionXMax - intersectionXMin);
          intersectionHeight = max 0 (intersectionYMax - intersectionYMin);
          intersectionArea = intersectionWidth * intersectionHeight;
          box1Area = cand_w box1 * cand_h box1;
          box2Area = cand_w box2 * cand_h box2;
          unionArea = box1Area + box2Area - intersectionArea
      in if unionArea > 0 then intersectionArea / unionArea else 0)"

text \<open>
  \<^verbatim>\<open>boxes.sort((a, b) => b.confidence - a.confidence)\<close>: descending by confidence.
  \<^verbatim>\<open>Array.prototype.sort\<close> is stable, and so is \<^const>\<open>sort_key\<close>.
\<close>

definition sortByConfidence :: "Candidate list \<Rightarrow> Candidate list" where
  "sortByConfidence boxes = sort_key (\<lambda>b. - cand_confidence b) boxes"

text \<open>
  The callback of \<^verbatim>\<open>boxes.filter\<close> inside the loop of \<^verbatim>\<open>applyNMS\<close>: a box of another
  class is kept, a box of the same class is kept when its IoU with \<open>current\<close> is
  below the threshold.
\<close>

definition keepAfter :: "real \<Rightarrow> Candidate \<Rightarrow> Candidate \<Rightarrow> bool" where
  "keepAfter iouThreshold current b =
     (if classId b \<noteq> classId current then True
      else calculateIoU current b < iouThreshold)"

text \<open>
  The \<^verbatim>\<open>while (boxes.length > 0)\<close> loop: \<^verbatim>\<open>shift\<close> takes the head, \<^verbatim>\<open>push\<close> appends it
  to \<open>selected\<close>, and the remaining boxes are filtered.
\<close>

function nmsLoop :: "real \<Rightarrow> Candidate list \<Rightarrow> Candidate list \<Rightarrow> Candidate list" where
  "nmsLoop iouThreshold [] selected = selected"
| "nmsLoop iouThreshold (current # boxes) selected =
     nmsLoop iouThreshold (filter (keepAfter iouThreshold current) boxes) (selected @ [current])"
  by pat_completeness auto
termination
  by (relation "measure (\<lambda>(t, boxes, selected). length boxes)") (auto simp: less_Suc_eq_le)

text \<open>\<^verbatim>\<open>applyNMS(boxes)\<close>, with \<^verbatim>\<open>this.IOU_THRESHOLD\<close> as a parameter.\<close>

definition applyNMS :: "real \<Rightarrow> Candidate list \<Rightarrow> Candidate list" where
  "applyNMS iouThreshold boxes = nmsLoop iouThreshold (sortByConfidence boxes) []"

text \<open>
  Three candidates used as a test input: \<open>candB\<close> overlaps \<open>candA\<close> almost wholly and
  has its class; \<open>candC\<close> has the box of \<open>candA\<close> and another class.
\<close>

definition candA :: Candidate where
  "candA = \<lparr>cand_x = 100, cand_y = 100, cand_w = 50, cand_h = 50, classId = 0, cand_confidence = 9 / 10\<rparr>"

definition candB :: Candidate where
  "candB = \<lparr>cand_x = 102, cand_y = 100, cand_w = 50, cand_h = 50, classId = 0, cand_confidence = 8 / 10\<rparr>"

definition candC :: Candidate where
  "candC = \<lparr>cand_x = 100, cand_y = 100, cand_w = 50, cand_h = 50, classId = 1, cand_confidence = 7 / 10\<rparr>"

section \<open>Decoding: the output tensor\<close>

text \<open>
  \<^verbatim>\<open>data[i]\<close> on a \<^verbatim>\<open>Float32Array\<close>: the element, or \<^verbatim>\<open>undefined\<close> (here \<open>None\<close>) when
  the index is outside the buffer.
\<close>

definition readAt :: "real list \<Rightarrow> int \<Rightarrow> real option" where
  "readAt data i = (if 0 \<le> i \<and> nat i < length data then Some (data ! nat i) else None)"

text \<open>
  What \<^verbatim>\<open>parseYoloOnnxOutputCorrect\<close> pushes: the four box values are whatever the
  reads returned (a comparison with \<^verbatim>\<open>undefined\<close> is false, so an anchor read outside
  the buffer is not discarded by the size test); the confidence passed \<^verbatim>\<open>bestScore > 0\<close>
  and is a number.
\<close>

record ParsedBox =
  px :: "real option"
  py :: "real option"
  pw :: "real option"
  ph :: "real option"
  pclassId :: int
  pconfidence :: real

text \<open>
  \<open>ShapeMismatch\<close> is the \<^verbatim>\<open>Error\<close> thrown for an unexpected shape; \<open>TypeError\<close> is
  what reading \<^verbatim>\<open>output.data\<close> of \<^verbatim>\<open>undefined\<close> throws.
\<close>

datatype DecodeError = ShapeMismatch | TypeError

text \<open>
  One round of \<^verbatim>\<open>for (let c = 0; c < numClasses; c++)\<close>:
  \<^verbatim>\<open>if (s > bestScore) { bestScore = s; bestClass = c; }\<close>. A \<open>bestScore\<close> of \<open>None\<close> is
  the initial \<^verbatim>\<open>-Infinity\<close>.
\<close>

definition bestStep :: "(int \<Rightarrow> real option) \<Rightarrow> real option \<times> int \<Rightarrow> nat \<Rightarrow> real option \<times> int" where
  "bestStep score acc c =
     (case score (int c) of
        None \<Rightarrow> acc
      | Some s \<Rightarrow>
          (case fst acc of
             None \<Rightarrow> (Some s, int c)
           | Some b \<Rightarrow> if s > b then (Some s, int c) else acc))"

definition bestOf :: "(int \<Rightarrow> real option) \<Rightarrow> nat \<Rightarrow> real option \<times> int" where
  "bestOf score numClasses = foldl (bestStep score) (None, -1) [0..<numClasses]"

text \<open>\<^verbatim>\<open>w <= 0\<close>, false on \<^verbatim>\<open>undefined\<close>.\<close>

definition leZero :: "real option \<Rightarrow> bool" where
  "leZero v = (case v of None \<Rightarrow> False | Some r \<Rightarrow> r \<le> 0)"

text \<open>The body of the loop over the anchors, for anchor \<open>i\<close>.\<close>

definition parseAnchor :: "real list \<Rightarrow> bool \<Rightarrow> int \<Rightarrow> nat \<Rightarrow> int \<Rightarrow> ParsedBox list" where
  "parseAnchor data channelFirst N numClasses i =
     (let expectedChannels = 4 + int numClasses;
          base = i * expectedChannels;
          x = (if channelFirst then readAt data (0 * N + i) else readAt data (base + 0));
          y = (if channelFirst then readAt data (1 * N + i) else readAt data (base + 1));
          w = (if channelFirst then readAt data (2 * N + i) else readAt data (base + 2));
          h = (if channelFirst then readAt data (3 * N + i) else readAt data (base + 3))
      in if leZero w \<or> leZero h then []
         else
           (let best =
                  (if channelFirst then bestOf (\<lambda>c. readAt data ((4 + c) * N + i)) numClasses
                   else bestOf (\<lambda>c. readAt data (i * expectedChannels + 4 + c)) numClasses)
            in case fst best of
                 None \<Rightarrow> []
               | Some bestScore \<Rightarrow>
                   if bestScore > 0
                   then [\<lparr>px = x, py = y, pw = w, ph = h,
                          pclassId = snd best, pconfidence = bestScore\<rparr>]
                   else []))"

text \<open>
  \<^verbatim>\<open>parseYoloOnnxOutputCorrect(output, numClasses)\<close>. The \<^verbatim>\<open>throw new Error(`Unexpected
  output shape: ...`)\<close> is the result \<open>Inl ShapeMismatch\<close>.
\<close>

definition parseYoloOnnxOutputCorrect ::
    "real list \<Rightarrow> int list \<Rightarrow> nat \<Rightarrow> DecodeError + ParsedBox list" where
  "parseYoloOnnxOutputCorrect data dims numClasses =
     (let expectedChannels = 4 + int numClasses
      in if length dims = 3 \<and> dims ! 0 = 1 \<and> dims ! 1 = expectedChannels
         then Inr (sort_key (\<lambda>r. - pconfidence r)
                     (concat (map (parseAnchor data True (dims ! 2) numClasses)
                                  (map int [0..<nat (dims ! 2)]))))
         else if length dims = 3 \<and> dims ! 0 = 1 \<and> dims ! 2 = expectedChannels
         then Inr (sort_key (\<lambda>r. - pconfidence r)
                     (concat (map (parseAnchor data False (dims ! 1) numClasses)
                                  (map int [0..<nat (dims ! 1)]))))
         else Inl ShapeMismatch)"

text \<open>
  The two shapes the comment in the source names: \<^verbatim>\<open>[1, C, N]\<close> and \<^verbatim>\<open>[1, N, C]\<close> with
  \<open>C = 4 + numClasses\<close>.
\<close>

fun channelFirstLayout :: "int list \<Rightarrow> nat \<Rightarrow> bool" where
  "channelFirstLayout [a, c, n] numClasses = (a = 1 \<and> c = 4 + int numClasses)"
| "channelFirstLayout dims numClasses = False"

fun channelLastLayout :: "int list \<Rightarrow> nat \<Rightarrow> bool" where
  "channelLastLayout [a, n, c] numClasses = (a = 1 \<and> c = 4 + int numClasses)"
| "channelLastLayout dims numClasses = False"

text \<open>An output tensor of the inference session: \<^verbatim>\<open>{ data, dims }\<close>.\<close>

record Tensor =
  tdata :: "real list"
  dims :: "int list"

text \<open>
  \<^verbatim>\<open>pickDetOutput(results, numClasses)\<close>. \<open>results\<close> lists the entries of the record in
  the order of \<^verbatim>\<open>Object.keys\<close>. The first output with a fitting shape is returned,
  else the first output; on an empty record that is \<^verbatim>\<open>undefined\<close> (\<open>None\<close>).
\<close>

definition fitsShape :: "nat \<Rightarrow> Tensor \<Rightarrow> bool" where
  "fitsShape numClasses output =
     (let expectedChannels = 4 + int numClasses
      in if length (dims output) = 3 \<and> dims output ! 0 = 1
         then (dims output ! 1 = expectedChannels \<or> dims output ! 2 = expectedChannels)
         else False)"

definition pickDetOutput :: "(string \<times> Tensor) list \<Rightarrow> nat \<Rightarrow> Tensor option" where
  "pickDetOutput results numClasses =
     (case find (fitsShape numClasses) (map snd results) of
        Some output \<Rightarrow> Some output
      | None \<Rightarrow> (case results of [] \<Rightarrow> None | first # rest \<Rightarrow> Some (snd first)))"

text \<open>
  What \<^verbatim>\<open>detectObjects\<close> does with the outputs of the session, up to the parsed
  candidates: \<^verbatim>\<open>pickDetOutput\<close>, then the parser (called first in \<^verbatim>\<open>postprocessOutput\<close>).
\<close>

definition decodeOutput :: "(string \<times> Tensor) list \<Rightarrow> nat \<Rightarrow> DecodeError + ParsedBox list" where
  "decodeOutput results numClasses =
     (case pickDetOutput results numClasses of
        None \<Rightarrow> Inl TypeError
      | Some output \<Rightarrow> parseYoloOnnxOutputCorrect (tdata output) (dims output) numClasses)"

text \<open>
  A tensor of one anchor and two classes in the layout \<^verbatim>\<open>[1, 6, 1]\<close>, and the same
  data under a shape of four dimensions.
\<close>

definition tensorData :: "real list" where
  "tensorData = [400, 300, 20, 10, 2 / 10, 7 / 10]"

text \<open>
  A candidate in the right padding band of the letterbox of a 400 by 800 image
  (\<open>T = 800\<close>, so \<open>scale = 1\<close>, \<open>padX = 200\<close>, \<open>padY = 0\<close>).
\<close>

definition candPad :: Candidate where
  "candPad = \<lparr>cand_x = 790, cand_y = 400, cand_w = 10, cand_h = 10, classId = 0, cand_confidence = 9 / 10\<rparr>"

section \<open>Decoding: back to image coordinates\<close>

record Box =
  x1 :: real
  y1 :: real
  x2 :: real
  y2 :: real

text \<open>\<^verbatim>\<open>Math.round\<close>: the nearest integer, a half rounded up.\<close>

definition mathRound :: "real \<Rightarrow> real" where
  "mathRound v = of_int \<lfloor>v + 1 / 2\<rfloor>"

text \<open>
  The object literal \<^verbatim>\<open>{ label, score, box }\<close> that the callback of \<^verbatim>\<open>nmsBoxes.map\<close> in
  \<^verbatim>\<open>postprocessOutput\<close> returns. \<^verbatim>\<open>this.CLASS_NAMES[box.classId]\<close> is \<^verbatim>\<open>undefined\<close>
  (\<open>None\<close>) outside the table.
\<close>

record YoloDetection =
  ylabel :: "string option"
  yscore :: real
  ybox :: Box

definition classLabel :: "string list \<Rightarrow> int \<Rightarrow> string option" where
  "classLabel names c = (if 0 \<le> c \<and> nat c < length names then Some (names ! nat c) else None)"

text \<open>
  The callback itself. \<open>scale\<close> is the letterbox scale of \<^verbatim>\<open>preprocessImage\<close>, a
  non-zero number.
\<close>

definition remapDetection ::
    "string list \<Rightarrow> real \<Rightarrow> real \<Rightarrow> real \<Rightarrow> real \<Rightarrow> real \<Rightarrow> Candidate \<Rightarrow> YoloDetection" where
  "remapDetection names originalWidth originalHeight scale padX padY b =
     (let rx1 = ((cand_x b - cand_w b / 2) - padX) / scale;
          ry1 = ((cand_y b - cand_h b / 2) - padY) / scale;
          rx2 = ((cand_x b + cand_w b / 2) - padX) / scale;
          ry2 = ((cand_y b + cand_h b / 2) - padY) / scale
      in \<lparr>ylabel = classLabel names (classId b),
          yscore = cand_confidence b,
          ybox = \<lparr>x1 = max 0 (mathRound rx1),
                   y1 = max 0 (mathRound ry1),
                   x2 = min originalWidth (mathRound rx2),
                   y2 = min originalHeight (mathRound ry2)\<rparr>\<rparr>)"

text \<open>
  The tail of \<^verbatim>\<open>postprocessOutput\<close>, from the parsed candidates on: the confidence
  filter, the suppression and the mapping back.
\<close>

definition postprocessCandidates ::
    "string list \<Rightarrow> real \<Rightarrow> real \<Rightarrow> real \<Rightarrow> real \<Rightarrow> real \<Rightarrow> real \<Rightarrow> real
       \<Rightarrow> Candidate list \<Rightarrow> YoloDetection list" where
  "postprocessCandidates names confidenceThreshold iouThreshold
       originalWidth originalHeight scale padX padY parsed =
     map (remapDetection names originalWidth originalHeight scale padX padY)
       (applyNMS iouThreshold (filter (\<lambda>p. cand_confidence p > confidenceThreshold) parsed))"

section \<open>The detector's constructor\<close>

record DetectorOptions =
  opt_modelPath :: "string option"
  opt_inputSize :: "real option"
  opt_confidenceThreshold :: "real option"
  opt_iouThreshold :: "real option"
  opt_classNames :: "string list option"

text \<open>The fields of \<^verbatim>\<open>YoloV8OnnxDetector\<close> that the constructor sets.\<close>

record Detector =
  modelPath :: string
  INPUT_SIZE :: real
  CONFIDENCE_THRESHOLD :: real
  IOU_THRESHOLD :: real
  CLASS_NAMES :: "string list"

datatype ConfigError = EmptyClassList

text \<open>
  \<^verbatim>\<open>a || b\<close> on an optional number, an optional string and an optional array: \<^verbatim>\<open>b\<close> when
  \<^verbatim>\<open>a\<close> is falsy. \<^verbatim>\<open>undefined\<close>, \<^verbatim>\<open>0\<close> and the empty string are falsy; every array is
  truthy, the empty one too.
\<close>

definition orNumber :: "real option \<Rightarrow> real \<Rightarrow> real" where
  "orNumber a b = (case a of None \<Rightarrow> b | Some v \<Rightarrow> if v = 0 then b else v)"

definition orString :: "string option \<Rightarrow> string \<Rightarrow> string" where
  "orString a b = (case a of None \<Rightarrow> b | Some v \<Rightarrow> if v = [] then b else v)"

definition orArray :: "'a list option \<Rightarrow> 'a list \<Rightarrow> 'a list" where
  "orArray a b = (case a of None \<Rightarrow> b | Some v \<Rightarrow> v)"

text \<open>
  \<^verbatim>\<open>detectAndReadClassesTxt\<close> reads the file system. The parameter \<open>classesTxt\<close>
  stands for it: for a model path it gives the trimmed, non-empty lines of the
  \<^verbatim>\<open>classes.txt\<close> beside the model, or \<open>None\<close> when the file does not exist or cannot
  be read (both leave \<^verbatim>\<open>CLASS_NAMES\<close> as it is).
\<close>

definition detectAndReadClassesTxt :: "(string \<Rightarrow> string list option) \<Rightarrow> Detector \<Rightarrow> Detector" where
  "detectAndReadClassesTxt classesTxt d =
     (case classesTxt (modelPath d) of
        None \<Rightarrow> d
      | Some lines \<Rightarrow> d\<lparr>CLASS_NAMES := lines\<rparr>)"

text \<open>
  The constructor; \<open>options\<close> is \<open>None\<close> when no argument is passed. The initial
  values are those of the field declarations. The \<^verbatim>\<open>throw Error(...)\<close> is
  \<open>Inl EmptyClassList\<close>.
\<close>

definition newDetector ::
    "(string \<Rightarrow> string list option) \<Rightarrow> DetectorOptions option \<Rightarrow> ConfigError + Detector" where
  "newDetector classesTxt options =
     (let d0 = \<lparr>modelPath = ''./models/yolo/800-50/best.onnx'', INPUT_SIZE = 800,
                CONFIDENCE_THRESHOLD = 1 / 10, IOU_THRESHOLD = 45 / 100, CLASS_NAMES = []\<rparr>;
          d1 = d0\<lparr>modelPath := orString (Option.bind options opt_modelPath) (modelPath d0)\<rparr>;
          d2 = d1\<lparr>INPUT_SIZE := orNumber (Option.bind options opt_inputSize) (INPUT_SIZE d1)\<rparr>;
          d3 = d2\<lparr>CONFIDENCE_THRESHOLD :=
                    orNumber (Option.bind options opt_confidenceThreshold) (CONFIDENCE_THRESHOLD d2)\<rparr>;
          d4 = d3\<lparr>IOU_THRESHOLD := orNumber (Option.bind options opt_iouThreshold) (IOU_THRESHOLD d3)\<rparr>;
          d5 = d4\<lparr>CLASS_NAMES := orArray (Option.bind options opt_classNames) (CLASS_NAMES d4)\<rparr>
      in if length (CLASS_NAMES d5) = 0
         then (let d6 = detectAndReadClassesTxt classesTxt d5
               in if length (CLASS_NAMES d6) = 0 then Inl EmptyClassList else Inr d6)
         else Inr d5)"

section \<open>Refinement: data\<close>

text \<open>
  Modelled from the spec: the enum \<^verbatim>\<open>DocumentType\<close> (the file
  \<^verbatim>\<open>types/document-type.enum\<close> is not among the sources). The spec gives its four
  values, Receipt, Document, Screenshot and Unknown, and calls them string-keyed, so
  every value is truthy.
\<close>

datatype DocumentType = RECEIPT | DOCUMENT | SCREENSHOT | UNKNOWN

text \<open>
  \<^verbatim>\<open>DetectionMeta\<close>, with the keys \<^verbatim>\<open>validated\<close> and \<^verbatim>\<open>metrics\<close> that
  \<^verbatim>\<open>validateBarNoMutate\<close> adds. An absent key is \<open>None\<close>.
\<close>

datatype MetaSource = Src_detector | Src_refine | Src_fallback

datatype Which = TopBar | BottomBar

record Metrics =
  widthFrac :: real
  heightFrac :: real
  which :: Which

record DetectionMeta =
  synthetic :: "bool option"
  adjusted :: "bool option"
  source :: "MetaSource option"
  reason :: "string option"
  validated :: "bool option"
  metrics :: "Metrics option"

text \<open>\<^verbatim>\<open>DetectionAxisAligned\<close>.\<close>

record Detection =
  label :: string
  score :: real
  box :: Box
  meta :: "DetectionMeta option"

datatype Clarity = Clarity_low | Clarity_medium | Clarity_high

record Quality =
  edgeIntensity :: "real option"
  readabilityScore :: "real option"
  clarity :: "Clarity option"
  skewAngleDeg :: "real option"
  isPartial :: "bool option"

text \<open>
  \<^verbatim>\<open>DocumentAnalysisSummary\<close>. The enum \<^verbatim>\<open>BackgroundType\<close> is not among the sources
  and no function here reads the field; it is kept as a string.
\<close>

record Summary =
  documentType :: DocumentType
  confidence :: "real option"
  background :: string
  primaryBox :: "Box option"
  primarySynthetic :: "bool option"
  primaryBoxSource :: "string option"
  quality :: Quality

text \<open>
  A value of \<^verbatim>\<open>number\<close> where the source divides without a guard: a finite number,
  an infinity or NaN.
\<close>

datatype jsnum = Fin real | PosInfinity | NegInfinity | NaN

text \<open>
  \<open>a / b\<close> in JavaScript. A zero divisor is taken to be \<open>+0\<close>, which it is for a
  product of a non-negative width and height.
\<close>

definition jsDiv :: "real \<Rightarrow> real \<Rightarrow> jsnum" where
  "jsDiv a b =
     (if b \<noteq> 0 then Fin (a / b)
      else if a > 0 then PosInfinity
      else if a < 0 then NegInfinity
      else NaN)"

text \<open>\<open>v < r\<close> and \<open>v >= r\<close> for a finite \<open>r\<close>; both are false on NaN.\<close>

fun jsLess :: "jsnum \<Rightarrow> real \<Rightarrow> bool" where
  "jsLess (Fin v) r = (v < r)"
| "jsLess PosInfinity r = False"
| "jsLess NegInfinity r = True"
| "jsLess NaN r = False"

fun jsGreaterEq :: "jsnum \<Rightarrow> real \<Rightarrow> bool" where
  "jsGreaterEq (Fin v) r = (v \<ge> r)"
| "jsGreaterEq PosInfinity r = True"
| "jsGreaterEq NegInfinity r = False"
| "jsGreaterEq NaN r = False"

text \<open>
  The trace notes. The source pushes strings, some with numbers formatted by
  \<^verbatim>\<open>toFixed\<close>; a note is modelled by its kind and the values that its text is made
  of. \<open>NoteText\<close> is a string that is already in \<^verbatim>\<open>signals.diagnostics\<close> of the input.
\<close>

datatype Note =
    NoteText string
  | NoteDropOutside string
  | NoteDropNarrow string real real real
  | NoteDropTall string real real real
  | NoteDropTopPosition real real
  | NoteDropBottomPosition real real
  | NoteTieScreenshot
  | NoteTieDocument
  | NoteRetype DocumentType DocumentType
  | NotePrimaryAdopted
  | NoteFlagPartial real real
  | NoteDropBars
  | NoteSwitch DocumentType jsnum real real real
  | NotePrimaryForced
  | NoteResolve string
  | NotePrimaryReplaced "string option"
  | NotePrimarySynthesized
  | NoteSynthDetection
  | NoteInserted

text \<open>\<^verbatim>\<open>DocumentAnalysisResult\<close> and its parts.\<close>

record SourceInfo =
  filename :: "string option"
  path :: "string option"

record ImageMeta =
  width :: real
  height :: real
  aspectRatio :: real
  format :: string
  colorspace :: string
  density :: "real option"

record AnalysisSignals =
  colors :: "string list option"
  classificationTopK :: "(string \<times> real) list option"
  diagnostics :: "Note list option"

record ModelInfo =
  detectorName :: "string option"
  classes :: "string list option"
  inputSize :: "real option"
  thresholds :: "(real option \<times> real option) option"

text \<open>
  The fields \<^verbatim>\<open>source\<close>, \<^verbatim>\<open>meta\<close> and \<^verbatim>\<open>model\<close> of the result are named
  \<open>imageSource\<close>, \<open>imageMeta\<close> and \<open>modelInfo\<close> here, apart from the fields of a
  detection.
\<close>

record DocumentAnalysisResult =
  imageSource :: SourceInfo
  timestamp :: string
  imageMeta :: ImageMeta
  summary :: Summary
  detections :: "Detection list"
  signals :: "AnalysisSignals option"
  modelInfo :: "ModelInfo option"

text \<open>\<^verbatim>\<open>Tol\<close>, \<^verbatim>\<open>Partial<Tol>\<close>, \<^verbatim>\<open>RefineOptions\<close> and \<^verbatim>\<open>FullRefineConfig\<close>.\<close>

record Tol =
  minBarWidthFrac :: real
  topBottomBandFrac :: real
  maxBarHeightFrac :: real
  insideSlackPx :: real
  classMargin :: real
  minPrimaryAreaFrac :: real
  screenshotMinCoverFrac :: real
  screenshotBarBonus :: real
  screenshotBothBarsBonus :: real
  screenshotCoverBonus :: real
  altCandidateMaxDelta :: real

record PartialTol =
  opt_minBarWidthFrac :: "real option"
  opt_topBottomBandFrac :: "real option"
  opt_maxBarHeightFrac :: "real option"
  opt_insideSlackPx :: "real option"
  opt_classMargin :: "real option"
  opt_minPrimaryAreaFrac :: "real option"
  opt_screenshotMinCoverFrac :: "real option"
  opt_screenshotBarBonus :: "real option"
  opt_screenshotBothBarsBonus :: "real option"
  opt_screenshotCoverBonus :: "real option"
  opt_altCandidateMaxDelta :: "real option"

record RefineOptions =
  opt_tol :: "PartialTol option"
  opt_allowRetype :: "bool option"
  opt_keepDiagnostics :: "bool option"

record FullRefineConfig =
  tol :: Tol
  allowRetype :: bool
  keepDiagnostics :: bool

definition DEFAULT_TOL :: Tol where
  "DEFAULT_TOL =
     \<lparr>minBarWidthFrac = 80 / 100, topBottomBandFrac = 12 / 100, maxBarHeightFrac = 15 / 100,
      insideSlackPx = 8, classMargin = 7 / 100, minPrimaryAreaFrac = 20 / 100,
      screenshotMinCoverFrac = 80 / 100, screenshotBarBonus = 5 / 100,
      screenshotBothBarsBonus = 3 / 100, screenshotCoverBonus = 5 / 100,
      altCandidateMaxDelta = 6 / 100\<rparr>"

text \<open>\<open>a ?? b\<close> on an optional value.\<close>

definition orElse :: "'a option \<Rightarrow> 'a \<Rightarrow> 'a" where
  "orElse a b = (case a of None \<Rightarrow> b | Some v \<Rightarrow> v)"

text \<open>
  \<^verbatim>\<open>buildConfig\<close>: the spread \<^verbatim>\<open>{ ...DEFAULT_TOL, ...(options.tol ?? {}) }\<close> takes
  every key that the options give and the default for the others.
\<close>

definition mergeTol :: "Tol \<Rightarrow> PartialTol \<Rightarrow> Tol" where
  "mergeTol d p =
     \<lparr>minBarWidthFrac = orElse (opt_minBarWidthFrac p) (minBarWidthFrac d),
      topBottomBandFrac = orElse (opt_topBottomBandFrac p) (topBottomBandFrac d),
      maxBarHeightFrac = orElse (opt_maxBarHeightFrac p) (maxBarHeightFrac d),
      insideSlackPx = orElse (opt_insideSlackPx p) (insideSlackPx d),
      classMargin = orElse (opt_classMargin p) (classMargin d),
      minPrimaryAreaFrac = orElse (opt_minPrimaryAreaFrac p) (minPrimaryAreaFrac d),
      screenshotMinCoverFrac = orElse (opt_screenshotMinCoverFrac p) (screenshotMinCoverFrac d),
      screenshotBarBonus = orElse (opt_screenshotBarBonus p) (screenshotBarBonus d),
      screenshotBothBarsBonus = orElse (opt_screenshotBothBarsBonus p) (screenshotBothBarsBonus d),
      screenshotCoverBonus = orElse (opt_screenshotCoverBonus p) (screenshotCoverBonus d),
      altCandidateMaxDelta = orElse (opt_altCandidateMaxDelta p) (altCandidateMaxDelta d)\<rparr>"

definition buildConfig :: "RefineOptions option \<Rightarrow> FullRefineConfig" where
  "buildConfig options =
     \<lparr>tol = (case Option.bind options opt_tol of
                None \<Rightarrow> DEFAULT_TOL
              | Some p \<Rightarrow> mergeTol DEFAULT_TOL p),
      allowRetype = orElse (Option.bind options opt_allowRetype) True,
      keepDiagnostics = orElse (Option.bind options opt_keepDiagnostics) True\<rparr>"

section \<open>Refinement: geometry\<close>

definition clamp :: "real \<Rightarrow> real \<Rightarrow> real \<Rightarrow> real" where
  "clamp v lo hi = max lo (min hi v)"

definition area :: "Box \<Rightarrow> real" where
  "area b = max 0 (x2 b - x1 b) * max 0 (y2 b - y1 b)"

definition intersect :: "Box \<Rightarrow> Box \<Rightarrow> Box" where
  "intersect a b =
     \<lparr>x1 = max (x1 a) (x1 b), y1 = max (y1 a) (y1 b),
      x2 = min (x2 a) (x2 b), y2 = min (y2 a) (y2 b)\<rparr>"

definition iou :: "Box \<Rightarrow> Box \<Rightarrow> real" where
  "iou a b =
     (let inter = intersect a b;
          interA = area inter;
          unionA = area a + area b - interA
      in if unionA > 0 then interA / unionA else 0)"

text \<open>
  \<^verbatim>\<open>copy(x)\<close> is \<^verbatim>\<open>JSON.parse(JSON.stringify(x))\<close>: a new object with the same content
  (the numbers being finite). Values have no identity here, so it is the identity.
\<close>

definition copy :: "'a \<Rightarrow> 'a" where
  "copy v = v"

text \<open>The box \<^verbatim>\<open>{ x1: 0, y1: 0, x2: W, y2: H }\<close>.\<close>

definition fullFrame :: "real \<Rightarrow> real \<Rightarrow> Box" where
  "fullFrame W H = \<lparr>x1 = 0, y1 = 0, x2 = W, y2 = H\<rparr>"

section \<open>Refinement: bars and the main type\<close>

text \<open>
  \<^verbatim>\<open>validateBarNoMutate\<close>. The notes are passed in and returned; \<open>None\<close> is the
  \<^verbatim>\<open>null\<close> of a rejected bar. \<open>W\<close> and \<open>H\<close> are not used by the source either.
\<close>

definition emptyMeta :: DetectionMeta where
  "emptyMeta = \<lparr>synthetic = None, adjusted = None, source = None, reason = None,
                 validated = None, metrics = None\<rparr>"

definition validateBarNoMutate ::
    "Detection \<Rightarrow> Box \<Rightarrow> real \<Rightarrow> real \<Rightarrow> Which \<Rightarrow> Tol \<Rightarrow> Note list
       \<Rightarrow> Detection option \<times> Note list" where
  "validateBarNoMutate bar container W H wh tolr notes =
     (let cW = x2 container - x1 container;
          cH = y2 container - y1 container;
          minBarW = cW * minBarWidthFrac tolr;
          maxBarH = cH * maxBarHeightFrac tolr;
          bandH = cH * topBottomBandFrac tolr;
          inter = intersect (box bar) container;
          interA = area inter
      in if interA \<le> 0 then (None, notes @ [NoteDropOutside (label bar)])
         else
           (let bW = x2 inter - x1 inter;
                bH = y2 inter - y1 inter
            in if bW < minBarW
               then (None, notes @ [NoteDropNarrow (label bar) bW cW (minBarWidthFrac tolr)])
               else if bH > maxBarH
               then (None, notes @ [NoteDropTall (label bar) bH cH (maxBarHeightFrac tolr)])
               else
                 (let cy = (y1 inter + y2 inter) / 2;
                      out = (copy bar)\<lparr>meta := Some ((orElse (meta (copy bar)) emptyMeta)
                               \<lparr>source := Some Src_refine,
                                validated := Some True,
                                reason := Some ''bar_valid'',
                                metrics := Some \<lparr>widthFrac = bW / cW, heightFrac = bH / cH,
                                                  which = wh\<rparr>\<rparr>)\<rparr>
                  in case wh of
                       TopBar \<Rightarrow>
                         (let topBandY2 = y1 container + bandH
                          in if cy > topBandY2
                             then (None, notes @ [NoteDropTopPosition cy topBandY2])
                             else (Some out, notes))
                     | BottomBar \<Rightarrow>
                         (let botBandY1 = y2 container - bandH
                          in if cy < botBandY1
                             then (None, notes @ [NoteDropBottomPosition cy botBandY1])
                             else (Some out, notes)))))"

text \<open>The map \<open>preferred\<close> of \<^verbatim>\<open>pickMainType\<close>.\<close>

definition preferred :: "string \<Rightarrow> DocumentType option" where
  "preferred lbl =
     (if lbl = ''Receipt'' then Some RECEIPT
      else if lbl = ''Document'' then Some DOCUMENT
      else if lbl = ''Screenshot'' then Some SCREENSHOT
      else None)"

text \<open>
  \<^verbatim>\<open>Map.prototype.set\<close> on a map kept as the list of its entries in the order
  of insertion: a key that is present keeps its place.
\<close>

fun mapSet :: "(string \<times> Detection) list \<Rightarrow> string \<Rightarrow> Detection \<Rightarrow> (string \<times> Detection) list" where
  "mapSet [] k v = [(k, v)]"
| "mapSet (e # es) k v = (if fst e = k then (k, v) # es else e # mapSet es k v)"

text \<open>The body of the loop that fills \<open>byClass\<close>.\<close>

definition byClassStep :: "(string \<times> Detection) list \<Rightarrow> Detection \<Rightarrow> (string \<times> Detection) list" where
  "byClassStep byClass d =
     (if preferred (label d) = None then byClass
      else case map_of byClass (label d) of
             None \<Rightarrow> mapSet byClass (label d) d
           | Some prev \<Rightarrow> if score d > score prev then mapSet byClass (label d) d else byClass)"

definition boost :: "bool \<Rightarrow> string \<Rightarrow> real \<Rightarrow> real" where
  "boost hasBar lbl s = (if lbl = ''Screenshot'' \<and> hasBar then s + 5 / 100 else s)"

text \<open>
  \<^verbatim>\<open>pickMainType(result, tol, notes)\<close>: the type, the confidence and the detection it
  was taken from, with the notes. \<open>cand\<close> is not empty where its head is taken, and
  every label in it is a key of \<open>preferred\<close>.
\<close>

definition pickMainType ::
    "DocumentAnalysisResult \<Rightarrow> Tol \<Rightarrow> Note list
       \<Rightarrow> (DocumentType \<times> real \<times> Detection option) \<times> Note list" where
  "pickMainType result tolr notes =
     (let byClass = foldl byClassStep [] (detections result)
      in if byClass = []
         then ((documentType (summary result), orElse (confidence (summary result)) 0, None), notes)
         else
           (let hasTop = list_ex (\<lambda>d. label d = ''Top status bar'') (detections result);
                hasBot = list_ex (\<lambda>d. label d = ''Bottom nav bar'') (detections result);
                cand = sort_key (\<lambda>c. - boost (hasTop \<or> hasBot) (fst c) (score (snd c))) byClass;
                best = hd cand;
                tie = (case tl cand of
                         [] \<Rightarrow> False
                       | second # others \<Rightarrow>
                           \<bar>score (snd best) - score (snd second)\<bar> < classMargin tolr);
                ar = aspectRatio (imageMeta result);
                picked =
                  (if tie
                   then (if hasTop \<or> hasBot
                         then (orElse (find (\<lambda>c. fst c = ''Screenshot'') cand) best,
                               notes @ [NoteTieScreenshot])
                         else if ar \<ge> 65 / 100 \<and> map_of byClass ''Document'' \<noteq> None
                         then (orElse (find (\<lambda>c. fst c = ''Document'') cand) best,
                               notes @ [NoteTieDocument])
                         else (best, notes))
                   else (best, notes));
                pick = fst picked
            in ((the (preferred (fst pick)), score (snd pick), Some (snd pick)), snd picked)))"

section \<open>Refinement: the stages\<close>

text \<open>
  The working values of \<^verbatim>\<open>refineDocumentAnalysis\<close> that the stages read and assign:
  \<open>summary\<close>, \<open>outDetections\<close> and \<open>notes\<close>.
\<close>

record Work =
  wsummary :: Summary
  outDetections :: "Detection list"
  wnotes :: "Note list"

text \<open>Stages 1 and 2: pick a base class, retype if allowed.\<close>

definition retypeStage :: "FullRefineConfig \<Rightarrow> DocumentAnalysisResult \<Rightarrow> Work" where
  "retypeStage cfg input =
     (let picked = pickMainType input (tol cfg) [];
          mainType = fst (fst picked);
          mainConf = fst (snd (fst picked));
          s = copy (summary input)
      in if allowRetype cfg \<and> mainType \<noteq> documentType (summary input)
         then \<lparr>wsummary = s\<lparr>documentType := mainType, confidence := Some mainConf\<rparr>,
               outDetections = [],
               wnotes = snd picked @ [NoteRetype (documentType (summary input)) mainType]\<rparr>
         else \<lparr>wsummary = s, outDetections = [], wnotes = snd picked\<rparr>)"

text \<open>Stage 3: the primary box, clamped to the frame, and the partial flag.\<close>

definition adoptPrimary :: "Detection option \<Rightarrow> Work \<Rightarrow> Work" where
  "adoptPrimary primary w =
     (case (primaryBox (wsummary w), primary) of
        (None, Some p) \<Rightarrow>
          w\<lparr>wsummary := (wsummary w)\<lparr>primaryBox := Some (copy (box p))\<rparr>,
            wnotes := wnotes w @ [NotePrimaryAdopted]\<rparr>
      | _ \<Rightarrow> w)"

definition clampPrimary :: "FullRefineConfig \<Rightarrow> real \<Rightarrow> real \<Rightarrow> Work \<Rightarrow> Work" where
  "clampPrimary cfg W H w =
     (case primaryBox (wsummary w) of
        None \<Rightarrow> w
      | Some pb \<Rightarrow>
          (let pb' = \<lparr>x1 = clamp (x1 pb) 0 W, y1 = clamp (y1 pb) 0 H,
                      x2 = clamp (x2 pb) 0 W, y2 = clamp (y2 pb) 0 H\<rparr>;
               primA = area pb';
               frameA = W * H;
               cover = (if frameA > 0 then primA / frameA else 0);
               wasPartial = (isPartial (quality (wsummary w)) = Some True);
               nowPartial = (cover < minPrimaryAreaFrac (tol cfg));
               s1 = (wsummary w)\<lparr>primaryBox := Some pb'\<rparr>
           in if nowPartial \<noteq> wasPartial
              then w\<lparr>wsummary := s1\<lparr>quality := (quality s1)\<lparr>isPartial := Some nowPartial\<rparr>\<rparr>,
                     wnotes := (if nowPartial
                               then wnotes w @ [NoteFlagPartial cover (minPrimaryAreaFrac (tol cfg))]
                               else wnotes w)\<rparr>
              else w\<lparr>wsummary := s1\<rparr>))"

definition primaryBoxStage :: "FullRefineConfig \<Rightarrow> DocumentAnalysisResult \<Rightarrow> Work \<Rightarrow> Work" where
  "primaryBoxStage cfg input w =
     clampPrimary cfg (width (imageMeta input)) (height (imageMeta input))
       (adoptPrimary (snd (snd (fst (pickMainType input (tol cfg) [])))) w)"

text \<open>Stages 4 and 5: the bars are taken out; a note when the type is not Screenshot.\<close>

definition isBar :: "Detection \<Rightarrow> bool" where
  "isBar d = (label d = ''Top status bar'' \<or> label d = ''Bottom nav bar'')"

definition barsOf :: "DocumentAnalysisResult \<Rightarrow> Detection list" where
  "barsOf input = filter isBar (detections input)"

definition restOf :: "DocumentAnalysisResult \<Rightarrow> Detection list" where
  "restOf input = filter (\<lambda>d. \<not> isBar d) (detections input)"

definition extractBarsStage :: "DocumentAnalysisResult \<Rightarrow> Work \<Rightarrow> Work" where
  "extractBarsStage input w =
     (if documentType (wsummary w) \<noteq> SCREENSHOT \<and> barsOf input \<noteq> []
      then w\<lparr>outDetections := restOf input, wnotes := wnotes w @ [NoteDropBars]\<rparr>
      else w\<lparr>outDetections := restOf input\<rparr>)"

text \<open>
  \<^verbatim>\<open>xs.filter(p).sort((a,b) => (b.score??0) - (a.score??0))[0]\<close>: the first of the
  matching detections with the highest score, if there is one.
\<close>

definition bestByScore :: "(Detection \<Rightarrow> bool) \<Rightarrow> Detection list \<Rightarrow> Detection option" where
  "bestByScore p ds =
     (case sort_key (\<lambda>d. - score d) (filter p ds) of [] \<Rightarrow> None | d # rest \<Rightarrow> Some d)"

text \<open>\<^verbatim>\<open>scoreScreenshot\<close>: \<open>(score, cover, validBars)\<close>. The division has no guard.\<close>

definition scoreScreenshot ::
    "Box \<Rightarrow> Detection option \<Rightarrow> Detection option \<Rightarrow> real \<Rightarrow> real \<Rightarrow> real \<Rightarrow> Tol
       \<Rightarrow> real \<times> jsnum \<times> nat" where
  "scoreScreenshot container topOk botOk frameW frameH baseConf tolr =
     (let cover = jsDiv (area container) (frameW * frameH);
          s0 = baseConf;
          s1 = (if topOk \<noteq> None then s0 + screenshotBarBonus tolr else s0);
          v1 = (if topOk \<noteq> None then 1 else 0);
          s2 = (if botOk \<noteq> None then s1 + screenshotBarBonus tolr else s1);
          v2 = (if botOk \<noteq> None then v1 + 1 else v1);
          s3 = (if v2 = 2 then s2 + screenshotBothBarsBonus tolr else s2);
          s4 = (if jsGreaterEq cover (screenshotMinCoverFrac tolr) then s3 + screenshotCoverBonus tolr else s3)
      in (s4, cover, v2))"

text \<open>The values that stage 6 computes before it decides.\<close>

definition bestScreenshotOf :: "DocumentAnalysisResult \<Rightarrow> Detection option" where
  "bestScreenshotOf input = bestByScore (\<lambda>d. label d = ''Screenshot'') (detections input)"

definition screenshotContainer :: "DocumentAnalysisResult \<Rightarrow> Box" where
  "screenshotContainer input =
     (case bestScreenshotOf input of
        Some b \<Rightarrow> copy (box b)
      | None \<Rightarrow> fullFrame (width (imageMeta input)) (height (imageMeta input)))"

definition topValidated :: "FullRefineConfig \<Rightarrow> DocumentAnalysisResult \<Rightarrow> Note list \<Rightarrow> Detection option \<times> Note list" where
  "topValidated cfg input ns =
     (case find (\<lambda>b. label b = ''Top status bar'') (barsOf input) of
        None \<Rightarrow> (None, ns)
      | Some topRaw \<Rightarrow>
          validateBarNoMutate topRaw (screenshotContainer input)
            (width (imageMeta input)) (height (imageMeta input)) TopBar (tol cfg) ns)"

definition botValidated :: "FullRefineConfig \<Rightarrow> DocumentAnalysisResult \<Rightarrow> Note list \<Rightarrow> Detection option \<times> Note list" where
  "botValidated cfg input ns =
     (case find (\<lambda>b. label b = ''Bottom nav bar'') (barsOf input) of
        None \<Rightarrow> (None, ns)
      | Some botRaw \<Rightarrow>
          validateBarNoMutate botRaw (screenshotContainer input)
            (width (imageMeta input)) (height (imageMeta input)) BottomBar (tol cfg) ns)"

definition altOf :: "DocumentAnalysisResult \<Rightarrow> Detection option" where
  "altOf input =
     bestByScore (\<lambda>d. label d = ''Document'' \<or> label d = ''Receipt'') (detections input)"

text \<open>\<open>altScore\<close>; \<open>None\<close> is the initial \<^verbatim>\<open>-Infinity\<close>.\<close>

definition altScoreOf :: "DocumentAnalysisResult \<Rightarrow> real option" where
  "altScoreOf input =
     (case altOf input of
        None \<Rightarrow> None
      | Some alt \<Rightarrow> Some (score alt + (1 / 2) * iou (box alt) (screenshotContainer input)))"

definition altTypeOf :: "DocumentAnalysisResult \<Rightarrow> DocumentType option" where
  "altTypeOf input =
     (case altOf input of
        None \<Rightarrow> None
      | Some alt \<Rightarrow> Some (if label alt = ''Document'' then DOCUMENT else RECEIPT))"

text \<open>\<open>s = scoreScreenshot(...)\<close> as stage 6 calls it, for the working summary.\<close>

definition screenshotScore :: "FullRefineConfig \<Rightarrow> DocumentAnalysisResult \<Rightarrow> Work \<Rightarrow> real \<times> jsnum \<times> nat" where
  "screenshotScore cfg input w =
     (let topR = topValidated cfg input (wnotes w);
          botR = botValidated cfg input (snd topR);
          baseConf = orElse (confidence (wsummary w))
                       (case bestScreenshotOf input of None \<Rightarrow> 0 | Some b \<Rightarrow> score b)
      in scoreScreenshot (screenshotContainer input) (fst topR) (fst botR)
           (width (imageMeta input)) (height (imageMeta input)) baseConf (tol cfg))"

definition needSwitchToAlt :: "FullRefineConfig \<Rightarrow> DocumentAnalysisResult \<Rightarrow> Work \<Rightarrow> bool" where
  "needSwitchToAlt cfg input w =
     (let s = screenshotScore cfg input w
      in jsLess (fst (snd s)) (screenshotMinCoverFrac (tol cfg)) \<and>
         (case altScoreOf input of
            None \<Rightarrow> False
          | Some altScore \<Rightarrow> altScore \<ge> fst s - altCandidateMaxDelta (tol cfg)))"

text \<open>Stage 6: the Screenshot logic.\<close>

definition screenshotStage :: "FullRefineConfig \<Rightarrow> DocumentAnalysisResult \<Rightarrow> Work \<Rightarrow> Work" where
  "screenshotStage cfg input w =
     (if documentType (wsummary w) = SCREENSHOT
      then
        (let W = width (imageMeta input);
             H = height (imageMeta input);
             container = screenshotContainer input;
             topR = topValidated cfg input (wnotes w);
             botR = botValidated cfg input (snd topR);
             ns = snd botR;
             s = screenshotScore cfg input w
         in case (needSwitchToAlt cfg input w \<and> allowRetype cfg, altOf input, altTypeOf input) of
              (True, Some alt, Some altType) \<Rightarrow>
                w\<lparr>wsummary := (wsummary w)\<lparr>documentType := altType,
                                             confidence := Some (score alt),
                                             primaryBox := Some (copy (box alt))\<rparr>,
                  wnotes := ns @ [NoteSwitch altType (fst (snd s))
                                   (screenshotMinCoverFrac (tol cfg))
                                   (orElse (altScoreOf input) 0) (fst s)]\<rparr>
            | _ \<Rightarrow>
                (let containerCover = jsDiv (area container) (W * H);
                     forced = (bestScreenshotOf input = None \<or>
                               jsLess containerCover (screenshotMinCoverFrac (tol cfg)));
                     pb = (if forced then fullFrame W H else copy container)
                 in w\<lparr>wsummary := (wsummary w)\<lparr>primaryBox := Some pb, confidence := Some (fst s)\<rparr>,
                       outDetections := outDetections w
                          @ (case fst topR of None \<Rightarrow> [] | Some t \<Rightarrow> [t])
                          @ (case fst botR of None \<Rightarrow> [] | Some b \<Rightarrow> [b]),
                       wnotes := (if forced then ns @ [NotePrimaryForced] else ns)\<rparr>))
      else w)"

text \<open>
  \<^verbatim>\<open>Math.max(...xs)\<close> on a list that is not empty; both calls are behind a test of the
  length.
\<close>

fun mathMax :: "real list \<Rightarrow> real" where
  "mathMax (v # vs) = foldl max v vs"

text \<open>Stage 7: Document against Receipt.\<close>

definition resolveStage :: "FullRefineConfig \<Rightarrow> Work \<Rightarrow> Work" where
  "resolveStage cfg w =
     (let doc = filter (\<lambda>d. label d = ''Document'') (outDetections w);
          rec = filter (\<lambda>d. label d = ''Receipt'') (outDetections w)
      in case primaryBox (wsummary w) of
           None \<Rightarrow> w
         | Some pb \<Rightarrow>
             if doc \<noteq> [] \<and> rec \<noteq> [] \<and> allowRetype cfg
             then
               (let scoreDoc = mathMax (map score doc);
                    scoreRec = mathMax (map score rec);
                    iouDoc = mathMax (map (\<lambda>d. iou (box d) pb) doc);
                    iouRec = mathMax (map (\<lambda>d. iou (box d) pb) rec);
                    keep = (if scoreDoc + iouDoc \<ge> scoreRec + iouRec then ''Document'' else ''Receipt'');
                    kept = filter (\<lambda>d. label d = keep \<or>
                                        (label d \<noteq> ''Document'' \<and> label d \<noteq> ''Receipt''))
                             (outDetections w);
                    wantType = (if keep = ''Document'' then DOCUMENT else RECEIPT)
                in if documentType (wsummary w) \<noteq> wantType
                   then w\<lparr>wsummary := (wsummary w)\<lparr>documentType := wantType,
                              confidence := Some (if keep = ''Document'' then scoreDoc else scoreRec)\<rparr>,
                          outDetections := kept,
                          wnotes := wnotes w @ [NoteResolve keep]\<rparr>
                   else w\<lparr>outDetections := kept\<rparr>)
             else w)"

text \<open>The label that stands for a type, \<^verbatim>\<open>undefined\<close> (\<open>None\<close>) for Unknown.\<close>

definition wantedLabel :: "DocumentType \<Rightarrow> string option" where
  "wantedLabel t =
     (if t = SCREENSHOT then Some ''Screenshot''
      else if t = DOCUMENT then Some ''Document''
      else if t = RECEIPT then Some ''Receipt''
      else None)"

text \<open>Stage 8: the primary box is replaced by the best box of the class when their IoU is low.\<close>

definition replacePrimaryStage :: "FullRefineConfig \<Rightarrow> Work \<Rightarrow> Work" where
  "replacePrimaryStage cfg w =
     (case primaryBox (wsummary w) of
        None \<Rightarrow> w
      | Some pb \<Rightarrow>
          if allowRetype cfg
          then
            (let wantedLbl = wantedLabel (documentType (wsummary w));
                 cands = filter (\<lambda>d. label d = orElse wantedLbl []) (outDetections w)
             in if cands \<noteq> []
                then
                  (let scored = sort_key (\<lambda>p. - snd p)
                                  (map (\<lambda>d. (d, score d + (1 / 2) * iou (box d) pb)) cands);
                       best = fst (hd scored)
                   in if iou (box best) pb < 1 / 2
                      then w\<lparr>wsummary := (wsummary w)\<lparr>primaryBox := Some (copy (box best))\<rparr>,
                             wnotes := wnotes w @ [NotePrimaryReplaced wantedLbl]\<rparr>
                      else w)
                else w)
          else w)"

text \<open>Stage 9: the fallback for Unknown.\<close>

definition fullDoc :: "real \<Rightarrow> real \<Rightarrow> Detection" where
  "fullDoc W H =
     \<lparr>label = ''Document'', score = 0, box = fullFrame W H,
      meta = Some (emptyMeta\<lparr>synthetic := Some True, source := Some Src_fallback,
                             reason := Some ''unknown_full_frame''\<rparr>)\<rparr>"

definition hasNearFullDoc :: "DocumentAnalysisResult \<Rightarrow> bool" where
  "hasNearFullDoc input =
     list_ex (\<lambda>d. (label d = ''Document'' \<or> label d = ''Screenshot'') \<and>
                   iou (box d) (box (fullDoc (width (imageMeta input)) (height (imageMeta input))))
                     > 95 / 100)
       (detections input)"

definition unknownStage :: "DocumentAnalysisResult \<Rightarrow> Work \<Rightarrow> Work" where
  "unknownStage input w =
     (if documentType (wsummary w) = UNKNOWN
      then
        (let fd = fullDoc (width (imageMeta input)) (height (imageMeta input));
             w1 = (case primaryBox (wsummary w) of
                     None \<Rightarrow> w\<lparr>wsummary := (wsummary w)\<lparr>primaryBox := Some (box fd)\<rparr>,
                                wnotes := wnotes w @ [NotePrimarySynthesized]\<rparr>
                   | Some pb \<Rightarrow> w);
             w2 = (if \<not> hasNearFullDoc input
                   then w1\<lparr>outDetections := fd # outDetections w1,
                           wnotes := wnotes w1 @ [NoteSynthDetection]\<rparr>
                   else w1)
         in w2\<lparr>wsummary := (wsummary w2)\<lparr>quality := (quality (wsummary w2))\<lparr>isPartial := Some False\<rparr>\<rparr>\<rparr>)
      else w)"

text \<open>
  \<^verbatim>\<open>upsertPrimaryDetection(out, notes, wantedLbl)\<close>, on the detections, the summary
  and the notes of \<open>out\<close>. \<open>bestIouFor\<close> is its loop.
\<close>

definition bestIouFor :: "string \<Rightarrow> Box \<Rightarrow> Detection list \<Rightarrow> real" where
  "bestIouFor wantedLbl pb ds =
     foldl (\<lambda>bestIou d. if label d \<noteq> wantedLbl then bestIou
                          else if iou (box d) pb > bestIou then iou (box d) pb else bestIou)
       0 ds"

definition upsertPrimaryDetection :: "Work \<Rightarrow> string option \<Rightarrow> Work" where
  "upsertPrimaryDetection w wantedLbl =
     (case (primaryBox (wsummary w), wantedLbl) of
        (Some pb, Some lbl) \<Rightarrow>
          if bestIouFor lbl pb (outDetections w) \<ge> 90 / 100 then w
          else w\<lparr>outDetections := outDetections w @
                     [\<lparr>label = lbl, score = orElse (confidence (wsummary w)) 0, box = pb,
                       meta = Some (emptyMeta\<lparr>synthetic := Some True, source := Some Src_refine,
                                              reason := Some ''matches_primaryBox''\<rparr>)\<rparr>],
                  wnotes := wnotes w @ [NoteInserted]\<rparr>
      | _ \<Rightarrow> w)"

section \<open>Refinement: the pipeline\<close>

text \<open>The working values after stage 5, after stage 6, after stage 8 and after stage 9.\<close>

definition beforeScreenshot :: "DocumentAnalysisResult \<Rightarrow> RefineOptions option \<Rightarrow> Work" where
  "beforeScreenshot input options =
     (let cfg = buildConfig options
      in extractBarsStage input (primaryBoxStage cfg input (retypeStage cfg input)))"

definition afterScreenshot :: "DocumentAnalysisResult \<Rightarrow> RefineOptions option \<Rightarrow> Work" where
  "afterScreenshot input options =
     screenshotStage (buildConfig options) input (beforeScreenshot input options)"

definition beforeUnknown :: "DocumentAnalysisResult \<Rightarrow> RefineOptions option \<Rightarrow> Work" where
  "beforeUnknown input options =
     (let cfg = buildConfig options
      in replacePrimaryStage cfg (resolveStage cfg (afterScreenshot input options)))"

definition beforeUpsert :: "DocumentAnalysisResult \<Rightarrow> RefineOptions option \<Rightarrow> Work" where
  "beforeUpsert input options = unknownStage input (beforeUnknown input options)"

text \<open>
  \<^verbatim>\<open>refineDocumentAnalysis(input, options)\<close>: stages 10 and 11 and the diagnostics on
  top of the stages above. \<open>options\<close> is \<open>None\<close> when the argument is left out.
\<close>

definition refineDocumentAnalysis ::
    "DocumentAnalysisResult \<Rightarrow> RefineOptions option \<Rightarrow> DocumentAnalysisResult" where
  "refineDocumentAnalysis input options =
     (let cfg = buildConfig options;
          w9 = beforeUpsert input options;
          w11 = upsertPrimaryDetection w9 (wantedLabel (documentType (wsummary w9)));
          out = input\<lparr>summary := wsummary w11, detections := outDetections w11\<rparr>
      in if keepDiagnostics cfg
         then out\<lparr>signals := Some ((orElse (signals out)
                       \<lparr>colors = None, classificationTopK = None, diagnostics = None\<rparr>)
                     \<lparr>diagnostics := Some (orElse (Option.bind (signals out) diagnostics) []
                                            @ wnotes w11)\<rparr>)\<rparr>
         else out)"

text \<open>
  An entry of the map \<open>byClass\<close> as \<^verbatim>\<open>pickMainType\<close> fills it: the key is the label of
  the detection and a key of \<open>preferred\<close>.
\<close>

definition entryOk :: "string \<times> Detection \<Rightarrow> bool" where
  "entryOk e \<longleftrightarrow> fst e = label (snd e) \<and> preferred (fst e) \<noteq> None"

section \<open>Test inputs of the refinement\<close>

text \<open>
  A result as \<^verbatim>\<open>DocumentAnalyzer.analyze\<close> assembles it, for a frame of the given size,
  a summary of the given type, confidence and primary box, and the given detections.
\<close>

definition mkResult ::
    "real \<Rightarrow> real \<Rightarrow> DocumentType \<Rightarrow> real option \<Rightarrow> Box option \<Rightarrow> Detection list
       \<Rightarrow> DocumentAnalysisResult" where
  "mkResult W H t c pb ds =
     \<lparr>imageSource = \<lparr>filename = None, path = None\<rparr>,
      timestamp = ''2025-01-01T00:00:00.000Z'',
      imageMeta = \<lparr>width = W, height = H,
                    aspectRatio = (if W \<noteq> 0 \<and> H \<noteq> 0 then W / H else 1),
                    format = ''png'', colorspace = ''srgb'', density = None\<rparr>,
      summary = \<lparr>documentType = t, confidence = c, background = ''unknown'',
                  primaryBox = pb, primarySynthetic = None, primaryBoxSource = None,
                  quality = \<lparr>edgeIntensity = Some (2 / 100), readabilityScore = Some (2 / 10),
                              clarity = Some Clarity_medium, skewAngleDeg = None,
                              isPartial = Some False\<rparr>\<rparr>,
      detections = ds,
      signals = Some \<lparr>colors = Some [], classificationTopK = None, diagnostics = None\<rparr>,
      modelInfo = None\<rparr>"

definition mkDetection :: "string \<Rightarrow> real \<Rightarrow> Box \<Rightarrow> Detection" where
  "mkDetection l s b = \<lparr>label = l, score = s, box = b, meta = None\<rparr>"

text \<open>No detection, type Unknown, no primary box, a frame of 800 by 600.\<close>

definition emptyUnknown :: DocumentAnalysisResult where
  "emptyUnknown = mkResult 800 600 UNKNOWN (Some 0) None []"

text \<open>
  Type Unknown and one Document detection whose IoU with the frame of 100 by 100 is
  exactly 0.95; retyping is turned off.
\<close>

definition nearFullUnknown :: DocumentAnalysisResult where
  "nearFullUnknown =
     mkResult 100 100 UNKNOWN (Some 0) None
       [mkDetection ''Document'' (3 / 10) \<lparr>x1 = 0, y1 = 0, x2 = 100, y2 = 95\<rparr>]"

definition noRetype :: RefineOptions where
  "noRetype = \<lparr>opt_tol = None, opt_allowRetype = Some False, opt_keepDiagnostics = None\<rparr>"

text \<open>Type Unknown, no detection, and a primary box of 10 by 10 in a frame of 100 by 100.\<close>

definition smallPrimaryUnknown :: DocumentAnalysisResult where
  "smallPrimaryUnknown =
     mkResult 100 100 UNKNOWN (Some 0) (Some \<lparr>x1 = 0, y1 = 0, x2 = 10, y2 = 10\<rparr>) []"


text \<open>
  Type Screenshot with confidence 0.5 and one Screenshot detection, in a frame of
  width and height 0.
\<close>

definition zeroFrameScreenshot :: DocumentAnalysisResult where
  "zeroFrameScreenshot =
     mkResult 0 0 SCREENSHOT (Some (5 / 10)) None
       [mkDetection ''Screenshot'' (5 / 10) \<lparr>x1 = 0, y1 = 0, x2 = 10, y2 = 10\<rparr>]"

text \<open>Type Document and a Document detection that is a vertical line.\<close>

definition lineDocument :: DocumentAnalysisResult where
  "lineDocument =
     mkResult 100 100 DOCUMENT (Some (5 / 10)) None
       [mkDetection ''Document'' (5 / 10) \<lparr>x1 = 10, y1 = 0, x2 = 10, y2 = 100\<rparr>]"

text \<open>Type Document with a primary box and no detection.\<close>

definition primaryOnlyDocument :: DocumentAnalysisResult where
  "primaryOnlyDocument =
     mkResult 100 100 DOCUMENT (Some (5 / 10)) (Some \<lparr>x1 = 0, y1 = 0, x2 = 50, y2 = 50\<rparr>) []"

section \<open>Refinement on a store of objects\<close>

text \<open>
  The functions above compute with values, and a value has no identity: whether
  \<^verbatim>\<open>refineDocumentAnalysis\<close> changes an object of its caller cannot be said of them.
  This section runs the same stages on a store. The store is the list of all
  objects; the address of an object is its index. An object or array literal,
  \<^verbatim>\<open>copy\<close>, \<^verbatim>\<open>filter\<close> and a spread allocate: they append to the store. An assignment
  to a property, \<^verbatim>\<open>push\<close> and \<^verbatim>\<open>sort\<close> replace the object at an address. The values
  that are written are those which the stages above compute from what is read from
  the store at that moment; the addresses are those of the variables that the source
  assigns through.

  The objects: a box; a detection, which refers to its box; an array of detections;
  the \<^verbatim>\<open>quality\<close> object; a summary, which refers to its primary box, if it has one, and
  to its quality object; a result, which refers to its summary and to its array of
  detections. The fields \<^verbatim>\<open>meta\<close> of a detection and \<^verbatim>\<open>source\<close>, \<^verbatim>\<open>meta\<close>, \<^verbatim>\<open>signals\<close> and
  \<^verbatim>\<open>model\<close> of a result are kept as values in the object: the source assigns whole
  new objects to \<^verbatim>\<open>out.meta\<close> and \<^verbatim>\<open>out.signals\<close> and never assigns inside them. The
  notes, the map and the array of pairs inside \<^verbatim>\<open>pickMainType\<close> and the arrays of
  numbers of stage 7 are local to the call and hold no detection; they are not in the
  store.
\<close>

type_synonym addr = nat

datatype obj =
    BoxObj Box
  | DetObj string real addr "DetectionMeta option"
  | ArrObj "addr list"
  | QualityObj Quality
  | SummaryObj DocumentType "real option" string "addr option" "bool option" "string option" addr
  | ResultObj SourceInfo string ImageMeta addr addr "AnalysisSignals option" "ModelInfo option"

type_synonym store = "obj list"

text \<open>Allocation; the address of the new object is \<open>length h\<close>.\<close>

definition alloc :: "store \<Rightarrow> obj \<Rightarrow> store" where
  "alloc h v = h @ [v]"

text \<open>Replacing the object at an address.\<close>

definition assign :: "store \<Rightarrow> addr \<Rightarrow> (obj \<Rightarrow> obj) \<Rightarrow> store" where
  "assign h a f = (if a < length h then h[a := f (h ! a)] else h)"

subsection \<open>Reading values\<close>

text \<open>
  The value of an object, with the values of the objects it refers to. The store is
  read at the type the source reads it at.
\<close>

definition boxAt :: "store \<Rightarrow> addr \<Rightarrow> Box" where
  "boxAt h a = (case h ! a of BoxObj b \<Rightarrow> b)"

definition readDet :: "store \<Rightarrow> addr \<Rightarrow> Detection" where
  "readDet h a =
     (case h ! a of DetObj l s b m \<Rightarrow> \<lparr>label = l, score = s, box = boxAt h b, meta = m\<rparr>)"

definition arrAt :: "store \<Rightarrow> addr \<Rightarrow> addr list" where
  "arrAt h a = (case h ! a of ArrObj xs \<Rightarrow> xs | _ \<Rightarrow> [])"

definition readQuality :: "store \<Rightarrow> addr \<Rightarrow> Quality" where
  "readQuality h a = (case h ! a of QualityObj q \<Rightarrow> q)"

definition readSummary :: "store \<Rightarrow> addr \<Rightarrow> Summary" where
  "readSummary h a =
     (case h ! a of
        SummaryObj t c bg pb ps pbs q \<Rightarrow>
          \<lparr>documentType = t, confidence = c, background = bg,
           primaryBox = map_option (boxAt h) pb, primarySynthetic = ps,
           primaryBoxSource = pbs, quality = readQuality h q\<rparr>)"

definition readResult :: "store \<Rightarrow> addr \<Rightarrow> DocumentAnalysisResult" where
  "readResult h a =
     (case h ! a of
        ResultObj src ts im s d sg mi \<Rightarrow>
          \<lparr>imageSource = src, timestamp = ts, imageMeta = im, summary = readSummary h s,
           detections = map (readDet h) (arrAt h d), signals = sg, modelInfo = mi\<rparr>)"

subsection \<open>Reading references\<close>

text \<open>
  The references that a summary and a result hold; \<open>None\<close> where the object at the
  address is of another kind, or the summary has no primary box.
\<close>

definition sumRefs :: "obj \<Rightarrow> (addr option \<times> addr) option" where
  "sumRefs v = (case v of SummaryObj t c bg pb ps pbs q \<Rightarrow> Some (pb, q) | _ \<Rightarrow> None)"

definition primaryRef :: "store \<Rightarrow> addr \<Rightarrow> addr option" where
  "primaryRef h a = (case sumRefs (h ! a) of None \<Rightarrow> None | Some r \<Rightarrow> fst r)"

definition qualityRef :: "store \<Rightarrow> addr \<Rightarrow> addr option" where
  "qualityRef h a = (case sumRefs (h ! a) of None \<Rightarrow> None | Some r \<Rightarrow> Some (snd r))"

definition resRefs :: "obj \<Rightarrow> (addr \<times> addr) option" where
  "resRefs v = (case v of ResultObj src ts im s d sg mi \<Rightarrow> Some (s, d) | _ \<Rightarrow> None)"

definition summaryOf :: "store \<Rightarrow> addr \<Rightarrow> addr option" where
  "summaryOf h a = map_option fst (resRefs (h ! a))"

definition detectionsOf :: "store \<Rightarrow> addr \<Rightarrow> addr option" where
  "detectionsOf h a = map_option snd (resRefs (h ! a))"

text \<open>The addresses in \<^verbatim>\<open>input.detections\<close>.\<close>

definition inputDetections :: "store \<Rightarrow> addr \<Rightarrow> addr list" where
  "inputDetections h ia = (case detectionsOf h ia of None \<Rightarrow> [] | Some d \<Rightarrow> arrAt h d)"

subsection \<open>Assignments\<close>

text \<open>
  One function for each kind of assignment in the source. An assignment acts on an
  object of the kind that the source assigns to.
\<close>

definition setBox :: "store \<Rightarrow> addr \<Rightarrow> Box \<Rightarrow> store" where
  "setBox h a b = assign h a (\<lambda>v. case v of BoxObj b0 \<Rightarrow> BoxObj b | _ \<Rightarrow> v)"

definition setMeta :: "store \<Rightarrow> addr \<Rightarrow> DetectionMeta option \<Rightarrow> store" where
  "setMeta h a m = assign h a (\<lambda>v. case v of DetObj l s b m0 \<Rightarrow> DetObj l s b m | _ \<Rightarrow> v)"

definition pushArr :: "store \<Rightarrow> addr \<Rightarrow> addr \<Rightarrow> store" where
  "pushArr h a e = assign h a (\<lambda>v. case v of ArrObj xs \<Rightarrow> ArrObj (xs @ [e]) | _ \<Rightarrow> v)"

definition setArr :: "store \<Rightarrow> addr \<Rightarrow> addr list \<Rightarrow> store" where
  "setArr h a ys = assign h a (\<lambda>v. case v of ArrObj xs \<Rightarrow> ArrObj ys | _ \<Rightarrow> v)"

definition setIsPartial :: "store \<Rightarrow> addr \<Rightarrow> bool option \<Rightarrow> store" where
  "setIsPartial h a p =
     assign h a (\<lambda>v. case v of QualityObj q \<Rightarrow> QualityObj (q\<lparr>isPartial := p\<rparr>) | _ \<Rightarrow> v)"

text \<open>\<^verbatim>\<open>summary.documentType = t; summary.confidence = c\<close>.\<close>

definition setTypeConf :: "store \<Rightarrow> addr \<Rightarrow> DocumentType \<Rightarrow> real option \<Rightarrow> store" where
  "setTypeConf h a t c =
     assign h a (\<lambda>v. case v of SummaryObj t0 c0 bg pb ps pbs q \<Rightarrow> SummaryObj t c bg pb ps pbs q
                           | _ \<Rightarrow> v)"

text \<open>\<^verbatim>\<open>summary.primaryBox = \<close> a reference.\<close>

definition setPrimaryRef :: "store \<Rightarrow> addr \<Rightarrow> addr \<Rightarrow> store" where
  "setPrimaryRef h a p =
     assign h a (\<lambda>v. case v of SummaryObj t c bg pb ps pbs q \<Rightarrow> SummaryObj t c bg (Some p) ps pbs q
                           | _ \<Rightarrow> v)"

text \<open>\<^verbatim>\<open>summary.quality.isPartial = p\<close>: through the reference that the summary holds.\<close>

definition setSummaryPartial :: "store \<Rightarrow> addr \<Rightarrow> bool option \<Rightarrow> store" where
  "setSummaryPartial h a p = (case qualityRef h a of None \<Rightarrow> h | Some q \<Rightarrow> setIsPartial h q p)"

text \<open>\<^verbatim>\<open>out.detections = \<close> a reference, and \<^verbatim>\<open>out.signals = \<close> a new object.\<close>

definition setDetections :: "store \<Rightarrow> addr \<Rightarrow> addr \<Rightarrow> store" where
  "setDetections h a d =
     assign h a (\<lambda>v. case v of ResultObj src ts im s d0 sg mi \<Rightarrow> ResultObj src ts im s d sg mi
                           | _ \<Rightarrow> v)"

definition setSignals :: "store \<Rightarrow> addr \<Rightarrow> AnalysisSignals option \<Rightarrow> store" where
  "setSignals h a sg =
     assign h a (\<lambda>v. case v of ResultObj src ts im s d sg0 mi \<Rightarrow> ResultObj src ts im s d sg mi
                           | _ \<Rightarrow> v)"

definition signalsAt :: "store \<Rightarrow> addr \<Rightarrow> AnalysisSignals option" where
  "signalsAt h a = (case h ! a of ResultObj src ts im s d sg mi \<Rightarrow> sg | _ \<Rightarrow> None)"

definition pushOpt :: "store \<Rightarrow> addr \<Rightarrow> addr option \<Rightarrow> store" where
  "pushOpt h a e = (case e of None \<Rightarrow> h | Some v \<Rightarrow> pushArr h a v)"

subsection \<open>Copies\<close>

text \<open>
  \<^verbatim>\<open>copy(input.summary)\<close>: a new quality object, a new box if the summary has a
  primary box, and a new summary that refers to them. The result is the store and
  the address of the new summary.
\<close>

definition copySummary :: "store \<Rightarrow> addr \<Rightarrow> store \<times> addr" where
  "copySummary h a =
     (case h ! a of
        SummaryObj t c bg pb ps pbs q \<Rightarrow>
          (let h1 = alloc h (QualityObj (readQuality h q))
           in case pb of
                None \<Rightarrow> (alloc h1 (SummaryObj t c bg None ps pbs (length h)), length h1)
              | Some pa \<Rightarrow>
                  (let h2 = alloc h1 (BoxObj (boxAt h pa))
                   in (alloc h2 (SummaryObj t c bg (Some (length h1)) ps pbs (length h)),
                       length h2)))
      | _ \<Rightarrow> (alloc h (ArrObj []), length h))"

text \<open>
  A new detection with the given content and a new box of its own: \<^verbatim>\<open>copy(bar)\<close>, and
  the literals \<open>fullDoc\<close> and \<open>det\<close>. The result is the store and the address of the
  detection.
\<close>

definition newDet :: "store \<Rightarrow> Detection \<Rightarrow> store \<times> addr" where
  "newDet h d =
     (let h1 = alloc h (BoxObj (box d))
      in (alloc h1 (DetObj (label d) (score d) (length h) (meta d)), length h1))"

text \<open>
  \<^verbatim>\<open>xs.filter(p).sort(...)\<close> on the array \<open>ds\<close>: \<^verbatim>\<open>filter\<close> makes a new array, at the
  address \<open>length h\<close>, and \<^verbatim>\<open>sort\<close> sorts that one in place.
\<close>

definition filterSort :: "store \<Rightarrow> addr list \<Rightarrow> (Detection \<Rightarrow> bool) \<Rightarrow> store" where
  "filterSort h ds p =
     (let h1 = alloc h (ArrObj (filter (\<lambda>a. p (readDet h a)) ds))
      in setArr h1 (length h) (sort_key (\<lambda>a. - score (readDet h1 a)) (arrAt h1 (length h))))"

subsection \<open>The stages\<close>

text \<open>
  The store and the variables of \<^verbatim>\<open>refineDocumentAnalysis\<close> that refer into it,
  \<^verbatim>\<open>summary\<close> and \<^verbatim>\<open>outDetections\<close>; and the notes.
\<close>

record RefState =
  heap :: store
  summaryRef :: addr
  outRef :: addr
  rnotes :: "Note list"

text \<open>The working values as the stages above take them, read from the store.\<close>

definition workOf :: "RefState \<Rightarrow> Work" where
  "workOf r =
     \<lparr>wsummary = readSummary (heap r) (summaryRef r),
      outDetections = map (readDet (heap r)) (arrAt (heap r) (outRef r)),
      wnotes = rnotes r\<rparr>"

text \<open>
  Stages 1 and 2: \<^verbatim>\<open>let summary = copy(input.summary)\<close> and the two assignments to
  \<^verbatim>\<open>summary\<close>. The empty array of \<^verbatim>\<open>let outDetections = []\<close> is allocated here. Where
  the object at \<open>ia\<close> is not a result, the source would throw; an empty array stands
  for the summary then.
\<close>

definition beginS :: "FullRefineConfig \<Rightarrow> store \<Rightarrow> addr \<Rightarrow> RefState" where
  "beginS cfg h ia =
     (let w = retypeStage cfg (readResult h ia);
          c = (case summaryOf h ia of
                 None \<Rightarrow> (alloc h (ArrObj []), length h)
               | Some s \<Rightarrow> copySummary h s);
          h1 = fst c;
          h2 = alloc h1 (ArrObj [])
      in \<lparr>heap = setTypeConf h2 (snd c) (documentType (wsummary w)) (confidence (wsummary w)),
          summaryRef = snd c, outRef = length h1, rnotes = wnotes w\<rparr>)"

text \<open>
  Stage 3: \<^verbatim>\<open>summary.primaryBox = copy(primary.box)\<close>; then the four assignments to
  the coordinates of \<^verbatim>\<open>summary.primaryBox\<close> and the one to \<^verbatim>\<open>summary.quality.isPartial\<close>.
\<close>

definition adoptS :: "Detection option \<Rightarrow> RefState \<Rightarrow> RefState" where
  "adoptS primary r =
     (case (primaryRef (heap r) (summaryRef r), primary) of
        (None, Some p) \<Rightarrow>
          r\<lparr>heap := setPrimaryRef (alloc (heap r) (BoxObj (box p))) (summaryRef r) (length (heap r)),
            rnotes := rnotes r @ [NotePrimaryAdopted]\<rparr>
      | _ \<Rightarrow> r)"

definition clampS :: "FullRefineConfig \<Rightarrow> real \<Rightarrow> real \<Rightarrow> RefState \<Rightarrow> RefState" where
  "clampS cfg W H r =
     (let w = clampPrimary cfg W H (workOf r)
      in case (primaryRef (heap r) (summaryRef r), primaryBox (wsummary w)) of
           (Some pa, Some pb) \<Rightarrow>
             r\<lparr>heap := setSummaryPartial (setBox (heap r) pa pb) (summaryRef r)
                          (isPartial (quality (wsummary w))),
               rnotes := wnotes w\<rparr>
         | _ \<Rightarrow> r)"

text \<open>
  Stages 4 and 5: two new arrays, \<open>bars\<close> at \<open>length h\<close> and \<open>rest\<close> after it; each
  detection of the input is pushed to one of them; \<^verbatim>\<open>outDetections = rest\<close>.
\<close>

definition pushSplit :: "addr \<Rightarrow> addr \<Rightarrow> store \<Rightarrow> addr \<Rightarrow> store" where
  "pushSplit barsA restA h a =
     (if isBar (readDet h a) then pushArr h barsA a else pushArr h restA a)"

definition extractS :: "addr \<Rightarrow> RefState \<Rightarrow> RefState" where
  "extractS ia r =
     (let h = heap r;
          h1 = alloc (alloc h (ArrObj [])) (ArrObj []);
          h2 = foldl (pushSplit (length h) (length h + 1)) h1 (inputDetections h ia)
      in r\<lparr>heap := h2, outRef := length h + 1,
           rnotes := wnotes (extractBarsStage (readResult h ia) (workOf r))\<rparr>)"

text \<open>
  Stage 6. \<open>barCopy\<close> is \<^verbatim>\<open>const out = copy(bar); out.meta = {...}\<close> of a bar that
  \<^verbatim>\<open>validateBarNoMutate\<close> accepts.
\<close>

definition barCopy :: "store \<Rightarrow> Detection option \<Rightarrow> Detection option \<Rightarrow> store \<times> addr option" where
  "barCopy h raw ok =
     (case (raw, ok) of
        (Some bar, Some out) \<Rightarrow>
          (let c = newDet h bar in (setMeta (fst c) (snd c) (meta out), Some (snd c)))
      | _ \<Rightarrow> (h, None))"

definition screenshotS :: "FullRefineConfig \<Rightarrow> addr \<Rightarrow> RefState \<Rightarrow> RefState" where
  "screenshotS cfg ia r =
     (let h = heap r;
          input = readResult h ia;
          w = workOf r
      in if documentType (wsummary w) = SCREENSHOT
         then
           (let w' = screenshotStage cfg input w;
                h1 = filterSort h (inputDetections h ia) (\<lambda>d. label d = ''Screenshot'');
                h2 = alloc h1 (BoxObj (screenshotContainer input));
                topR = topValidated cfg input (wnotes w);
                botR = botValidated cfg input (snd topR);
                t = barCopy h2 (find (\<lambda>b. label b = ''Top status bar'') (barsOf input)) (fst topR);
                b = barCopy (fst t) (find (\<lambda>b. label b = ''Bottom nav bar'') (barsOf input)) (fst botR);
                h5 = filterSort (fst b) (inputDetections h ia)
                       (\<lambda>d. label d = ''Document'' \<or> label d = ''Receipt'');
                h6 = (case primaryBox (wsummary w') of
                        None \<Rightarrow> h5
                      | Some pb \<Rightarrow> setPrimaryRef (alloc h5 (BoxObj pb)) (summaryRef r) (length h5));
                h7 = setTypeConf h6 (summaryRef r) (documentType (wsummary w')) (confidence (wsummary w'));
                h8 = (if documentType (wsummary w') = SCREENSHOT
                      then pushOpt (pushOpt h7 (outRef r) (snd t)) (outRef r) (snd b)
                      else h7)
            in r\<lparr>heap := h8, rnotes := wnotes w'\<rparr>)
         else r)"

text \<open>
  The decisions of stages 7 and 8 on their own: the label \<^verbatim>\<open>keep\<close> when stage 7
  runs, and the detection \<^verbatim>\<open>best\<close> when stage 8 replaces the primary box.
\<close>

definition resolveKeep :: "FullRefineConfig \<Rightarrow> Work \<Rightarrow> string option" where
  "resolveKeep cfg w =
     (let doc = filter (\<lambda>d. label d = ''Document'') (outDetections w);
          rec = filter (\<lambda>d. label d = ''Receipt'') (outDetections w)
      in case primaryBox (wsummary w) of
           None \<Rightarrow> None
         | Some pb \<Rightarrow>
             if doc \<noteq> [] \<and> rec \<noteq> [] \<and> allowRetype cfg
             then
               (let scoreDoc = mathMax (map score doc);
                    scoreRec = mathMax (map score rec);
                    iouDoc = mathMax (map (\<lambda>d. iou (box d) pb) doc);
                    iouRec = mathMax (map (\<lambda>d. iou (box d) pb) rec)
                in Some (if scoreDoc + iouDoc \<ge> scoreRec + iouRec then ''Document'' else ''Receipt''))
             else None)"

definition replaceBest :: "FullRefineConfig \<Rightarrow> Work \<Rightarrow> Detection option" where
  "replaceBest cfg w =
     (case primaryBox (wsummary w) of
        None \<Rightarrow> None
      | Some pb \<Rightarrow>
          if allowRetype cfg
          then
            (let cands = filter (\<lambda>d. label d = orElse (wantedLabel (documentType (wsummary w))) [])
                           (outDetections w)
             in if cands \<noteq> []
                then
                  (let scored = sort_key (\<lambda>p. - snd p)
                                  (map (\<lambda>d. (d, score d + (1 / 2) * iou (box d) pb)) cands);
                       best = fst (hd scored)
                   in if iou (box best) pb < 1 / 2 then Some best else None)
                else None)
          else None)"

text \<open>
  Stage 7: \<^verbatim>\<open>outDetections = outDetections.filter(...)\<close>, a new array, and the two
  assignments to \<^verbatim>\<open>summary\<close>.
\<close>

definition resolveS :: "FullRefineConfig \<Rightarrow> RefState \<Rightarrow> RefState" where
  "resolveS cfg r =
     (let h = heap r;
          w = workOf r;
          w' = resolveStage cfg w
      in case resolveKeep cfg w of
           None \<Rightarrow> r
         | Some keep \<Rightarrow>
             r\<lparr>heap := setTypeConf
                          (alloc h (ArrObj (filter
                             (\<lambda>a. label (readDet h a) = keep \<or>
                                   (label (readDet h a) \<noteq> ''Document'' \<and>
                                    label (readDet h a) \<noteq> ''Receipt''))
                             (arrAt h (outRef r)))))
                          (summaryRef r) (documentType (wsummary w')) (confidence (wsummary w')),
               outRef := length h,
               rnotes := wnotes w'\<rparr>)"

text \<open>Stage 8: \<^verbatim>\<open>summary.primaryBox = copy(best.box)\<close>.\<close>

definition replaceS :: "FullRefineConfig \<Rightarrow> RefState \<Rightarrow> RefState" where
  "replaceS cfg r =
     (case replaceBest cfg (workOf r) of
        None \<Rightarrow> r
      | Some best \<Rightarrow>
          r\<lparr>heap := setPrimaryRef (alloc (heap r) (BoxObj (box best))) (summaryRef r) (length (heap r)),
            rnotes := wnotes (replacePrimaryStage cfg (workOf r))\<rparr>)"

text \<open>
  Stage 9: the literal \<open>fullDoc\<close> with its box; \<^verbatim>\<open>summary.primaryBox = { ...fullDoc.box }\<close>,
  a new box; \<^verbatim>\<open>outDetections = [fullDoc, ...outDetections]\<close>, a new array; and the
  assignment to \<^verbatim>\<open>summary.quality.isPartial\<close>.
\<close>

definition unknownS :: "addr \<Rightarrow> RefState \<Rightarrow> RefState" where
  "unknownS ia r =
     (let h = heap r;
          input = readResult h ia;
          w = workOf r
      in if documentType (wsummary w) = UNKNOWN
         then
           (let fd = fullDoc (width (imageMeta input)) (height (imageMeta input));
                c = newDet h fd;
                h2 = (case primaryRef (fst c) (summaryRef r) of
                        None \<Rightarrow> setPrimaryRef (alloc (fst c) (BoxObj (box fd))) (summaryRef r)
                                  (length (fst c))
                      | Some pa \<Rightarrow> fst c);
                h3 = (if \<not> hasNearFullDoc input
                      then alloc h2 (ArrObj (snd c # arrAt h2 (outRef r)))
                      else h2);
                oa = (if \<not> hasNearFullDoc input then length h2 else outRef r)
            in r\<lparr>heap := setSummaryPartial h3 (summaryRef r) (Some False),
                 outRef := oa,
                 rnotes := wnotes (unknownStage input w)\<rparr>)
         else r)"

text \<open>
  Stages 10 and 11 and the diagnostics: the new object \<open>out\<close>, at \<open>length h\<close>, with the
  fields of the input but \<open>summary\<close> and \<open>detections\<close>; in \<^verbatim>\<open>upsertPrimaryDetection\<close> the
  assignment \<^verbatim>\<open>out.detections = out.detections || []\<close>, the literal \<open>det\<close> with its
  box, and the \<^verbatim>\<open>push\<close> to the array that \<open>out\<close> refers to; the assignment to
  \<^verbatim>\<open>out.signals\<close>. The result is the store and the address of \<open>out\<close>.
\<close>

definition finishS :: "FullRefineConfig \<Rightarrow> addr \<Rightarrow> RefState \<Rightarrow> store \<times> addr" where
  "finishS cfg ia r =
     (let h = heap r;
          w = workOf r;
          oa = length h;
          h1 = alloc h (case h ! ia of
                          ResultObj src ts im s d sg mi \<Rightarrow>
                            ResultObj src ts im (summaryRef r) (outRef r) sg mi
                        | _ \<Rightarrow> ArrObj []);
          wl = wantedLabel (documentType (wsummary w));
          w' = upsertPrimaryDetection w wl;
          h2 = (case (primaryBox (wsummary w), wl, detectionsOf h1 oa) of
                  (Some pb, Some lbl, Some da) \<Rightarrow>
                    (let h1' = setDetections h1 oa da
                     in if bestIouFor lbl pb (outDetections w) \<ge> 90 / 100 then h1'
                        else (let c = newDet h1'
                                        \<lparr>label = lbl, score = orElse (confidence (wsummary w)) 0,
                                         box = pb,
                                         meta = Some (emptyMeta\<lparr>synthetic := Some True,
                                                  source := Some Src_refine,
                                                  reason := Some ''matches_primaryBox''\<rparr>)\<rparr>
                              in pushArr (fst c) da (snd c)))
                | _ \<Rightarrow> h1);
          h3 = (if keepDiagnostics cfg
                then setSignals h2 oa
                       (Some ((orElse (signalsAt h2 oa)
                                 \<lparr>colors = None, classificationTopK = None, diagnostics = None\<rparr>)
                              \<lparr>diagnostics :=
                                 Some (orElse (Option.bind (signalsAt h2 oa) diagnostics) []
                                       @ wnotes w')\<rparr>))
                else h2)
      in (h3, oa))"

text \<open>
  \<^verbatim>\<open>refineDocumentAnalysis(input, options)\<close> on the store \<open>h\<close>, with the input at the
  address \<open>ia\<close>: the store after the call and the address of the result.
\<close>

definition refineStore :: "store \<Rightarrow> addr \<Rightarrow> RefineOptions option \<Rightarrow> store \<times> addr" where
  "refineStore h ia options =
     (let cfg = buildConfig options;
          input = readResult h ia;
          primary = snd (snd (fst (pickMainType input (tol cfg) [])));
          r3 = clampS cfg (width (imageMeta input)) (height (imageMeta input))
                 (adoptS primary (beginS cfg h ia));
          r9 = unknownS ia (replaceS cfg (resolveS cfg (screenshotS cfg ia (extractS ia r3))))
      in finishS cfg ia r9)"

subsection \<open>Stores that extend a store\<close>

text \<open>
  \<open>extends h0 h\<close>: the store \<open>h\<close> begins with \<open>h0\<close>, so every object of \<open>h0\<close> is in
  \<open>h\<close> at its address and with its content.
\<close>

definition extends :: "store \<Rightarrow> store \<Rightarrow> bool" where
  "extends h0 h \<longleftrightarrow> take (length h0) h = h0"

text \<open>
  \<open>fresh h0 h s\<close>: \<open>h\<close> extends \<open>h0\<close>, and the summary at \<open>s\<close>, its quality object and
  its primary box are not objects of \<open>h0\<close>.
\<close>

definition fresh :: "store \<Rightarrow> store \<Rightarrow> addr \<Rightarrow> bool" where
  "fresh h0 h s \<longleftrightarrow>
     extends h0 h \<and> length h0 \<le> s \<and> s < length h \<and>
     (case sumRefs (h ! s) of
        None \<Rightarrow> True
      | Some r \<Rightarrow> length h0 \<le> snd r \<and> (case fst r of None \<Rightarrow> True | Some p \<Rightarrow> length h0 \<le> p))"

text \<open>\<open>inv h0 r\<close>: the same for the state of the stages, with the array \<open>outDetections\<close>.\<close>

definition inv :: "store \<Rightarrow> RefState \<Rightarrow> bool" where
  "inv h0 r \<longleftrightarrow> fresh h0 (heap r) (summaryRef r) \<and> length h0 \<le> outRef r"

text \<open>
  A store for a test: a result for a frame of 1000 by 1000 with type Screenshot at
  address 7, its summary at 6 with the quality object at 5, its array of detections at
  4; a Screenshot detection over the frame at 1 and a top status bar at 3, with their
  boxes at 0 and 2.
\<close>

definition exampleStore :: store where
  "exampleStore =
     [BoxObj \<lparr>x1 = 0, y1 = 0, x2 = 1000, y2 = 1000\<rparr>,
      DetObj ''Screenshot'' (8 / 10) 0 None,
      BoxObj \<lparr>x1 = 0, y1 = 0, x2 = 1000, y2 = 60\<rparr>,
      DetObj ''Top status bar'' (6 / 10) 2 None,
      ArrObj [1, 3],
      QualityObj \<lparr>edgeIntensity = Some (2 / 100), readabilityScore = Some (2 / 10),
                  clarity = Some Clarity_medium, skewAngleDeg = None, isPartial = Some False\<rparr>,
      SummaryObj SCREENSHOT (Some (8 / 10)) ''unknown'' None None None 5,
      ResultObj \<lparr>filename = None, path = None\<rparr> ''2025-01-01T00:00:00.000Z''
        \<lparr>width = 1000, height = 1000, aspectRatio = 1, format = ''png'', colorspace = ''srgb'',
         density = None\<rparr>
        6 4 None None]"

section \<open>Properties of the suppression\<close>

lemma nmsLoop_acc: "nmsLoop t bs sel = sel @ nmsLoop t bs []"
proof (induction "length bs" arbitrary: bs sel rule: less_induct)
  case less
  show ?case
  proof (cases bs)
    case Nil
    then show ?thesis by simp
  next
    case (Cons c rest)
    let ?r = "filter (keepAfter t c) rest"
    have len: "length ?r < length bs" using Cons by (simp add: less_Suc_eq_le)
    have "nmsLoop t bs sel = nmsLoop t ?r (sel @ [c])" using Cons by simp
    also have "\<dots> = (sel @ [c]) @ nmsLoop t ?r []" by (rule less.hyps[OF len])
    also have "\<dots> = sel @ nmsLoop t ?r ([] @ [c])"
      using less.hyps[OF len, of "[c]"] by simp
    also have "\<dots> = sel @ nmsLoop t bs []" using Cons by simp
    finally show ?thesis .
  qed
qed

lemma nmsLoop_Cons:
  "nmsLoop t (c # bs) [] = c # nmsLoop t (filter (keepAfter t c) bs) []"
  using nmsLoop_acc[of t "filter (keepAfter t c) bs" "[c]"] by simp

declare nmsLoop.simps(2) [simp del]

lemma nmsLoop_set: "set (nmsLoop t bs []) \<subseteq> set bs"
proof (induction "length bs" arbitrary: bs rule: less_induct)
  case less
  show ?case
  proof (cases bs)
    case Nil
    then show ?thesis by simp
  next
    case (Cons c rest)
    have len: "length (filter (keepAfter t c) rest) < length bs"
      using Cons by (simp add: less_Suc_eq_le)
    from less.hyps[OF len] show ?thesis
      using Cons by (auto simp: nmsLoop_Cons)
  qed
qed

lemma nmsLoop_sorted_wrt:
  "sorted_wrt R bs \<Longrightarrow> sorted_wrt R (nmsLoop t bs [])"
proof (induction "length bs" arbitrary: bs rule: less_induct)
  case less
  show ?case
  proof (cases bs)
    case Nil
    then show ?thesis by simp
  next
    case (Cons c rest)
    let ?r = "filter (keepAfter t c) rest"
    have len: "length ?r < length bs" using Cons by (simp add: less_Suc_eq_le)
    have sr: "sorted_wrt R ?r" using less.prems Cons by (simp add: sorted_wrt_filter)
    have "sorted_wrt R (nmsLoop t ?r [])" by (rule less.hyps[OF len sr])
    moreover have "\<forall>b \<in> set (nmsLoop t ?r []). R c b"
      using nmsLoop_set[of t ?r] less.prems Cons by auto
    ultimately show ?thesis using Cons by (simp add: nmsLoop_Cons)
  qed
qed

lemma nmsLoop_compatible: "sorted_wrt (keepAfter t) (nmsLoop t bs [])"
proof (induction "length bs" arbitrary: bs rule: less_induct)
  case less
  show ?case
  proof (cases bs)
    case Nil
    then show ?thesis by simp
  next
    case (Cons c rest)
    let ?r = "filter (keepAfter t c) rest"
    have len: "length ?r < length bs" using Cons by (simp add: less_Suc_eq_le)
    have "sorted_wrt (keepAfter t) (nmsLoop t ?r [])" by (rule less.hyps[OF len])
    moreover have "\<forall>b \<in> set (nmsLoop t ?r []). keepAfter t c b"
      using nmsLoop_set[of t ?r] by auto
    ultimately show ?thesis using Cons by (simp add: nmsLoop_Cons)
  qed
qed

lemma nmsLoop_fixed: "sorted_wrt (keepAfter t) bs \<Longrightarrow> nmsLoop t bs [] = bs"
proof (induction bs)
  case Nil
  show ?case by simp
next
  case (Cons c bs)
  then have "filter (keepAfter t c) bs = bs" by (auto intro: filter_True)
  with Cons show ?case by (simp add: nmsLoop_Cons)
qed

lemma applyNMS_sorted: "sorted (map (\<lambda>b. - cand_confidence b) (applyNMS t boxes))"
proof -
  have "sorted (map (\<lambda>b. - cand_confidence b) (sortByConfidence boxes))"
    by (simp add: sortByConfidence_def)
  then have "sorted_wrt (\<lambda>a b. - cand_confidence a \<le> - cand_confidence b) (sortByConfidence boxes)"
    by (simp add: sorted_map)
  then have "sorted_wrt (\<lambda>a b. - cand_confidence a \<le> - cand_confidence b) (applyNMS t boxes)"
    unfolding applyNMS_def by (rule nmsLoop_sorted_wrt)
  then show ?thesis by (simp add: sorted_map)
qed

text \<open>
  C5. Per-class suppression is idempotent: for every list of candidates and every
  threshold, \<^verbatim>\<open>applyNMS\<close> applied to its own output returns that output unchanged.
\<close>

theorem applyNMS_idempotent: "applyNMS t (applyNMS t boxes) = applyNMS t boxes"
proof -
  have "sortByConfidence (applyNMS t boxes) = applyNMS t boxes"
    unfolding sortByConfidence_def by (rule sort_key_id_if_sorted[OF applyNMS_sorted])
  moreover have "sorted_wrt (keepAfter t) (applyNMS t boxes)"
    unfolding applyNMS_def by (rule nmsLoop_compatible)
  ultimately show ?thesis
    using nmsLoop_fixed[of t "applyNMS t boxes"] by (simp add: applyNMS_def[of t "applyNMS t boxes"])
qed

lemma applyNMS_example: "applyNMS (45 / 100) [candB, candC, candA] = [candA, candC]"
  by (simp add: applyNMS_def sortByConfidence_def nmsLoop_Cons keepAfter_def calculateIoU_def
      candA_def candB_def candC_def)

theorem applyNMS_idempotent_witness:
  "applyNMS (45 / 100) [candB, candC, candA] = [candA, candC] \<and>
   applyNMS (45 / 100) [candA, candC] = [candA, candC]"
proof -
  have "applyNMS (45 / 100) [candA, candC] = [candA, candC]"
    using applyNMS_idempotent[of "45 / 100" "[candB, candC, candA]"]
    unfolding applyNMS_example .
  with applyNMS_example show ?thesis by (rule conjI)
qed

lemma nmsLoop_removed:
  "b \<in> set bs \<Longrightarrow> b \<notin> set (nmsLoop t bs []) \<Longrightarrow>
   \<exists>k \<in> set (nmsLoop t bs []). classId k = classId b \<and> \<not> calculateIoU k b < t"
proof (induction "length bs" arbitrary: bs rule: less_induct)
  case less
  show ?case
  proof (cases bs)
    case Nil
    with less.prems show ?thesis by simp
  next
    case (Cons c rest)
    let ?r = "filter (keepAfter t c) rest"
    have len: "length ?r < length bs" using Cons by (simp add: less_Suc_eq_le)
    have out: "nmsLoop t bs [] = c # nmsLoop t ?r []" using Cons by (simp add: nmsLoop_Cons)
    from less.prems out Cons have b: "b \<noteq> c" "b \<in> set rest" "b \<notin> set (nmsLoop t ?r [])"
      by auto
    show ?thesis
    proof (cases "keepAfter t c b")
      case True
      with b have "b \<in> set ?r" by simp
      from less.hyps[OF len this b(3)] show ?thesis using out by auto
    next
      case False
      then have "classId c = classId b \<and> \<not> calculateIoU c b < t"
        by (auto simp: keepAfter_def split: if_splits)
      then show ?thesis using out by auto
    qed
  qed
qed

lemma nmsLoop_filter_class:
  "filter (\<lambda>b. classId b = c) (nmsLoop t bs []) = nmsLoop t (filter (\<lambda>b. classId b = c) bs) []"
proof (induction "length bs" arbitrary: bs rule: less_induct)
  case less
  show ?case
  proof (cases bs)
    case Nil
    then show ?thesis by simp
  next
    case (Cons d rest)
    let ?r = "filter (keepAfter t d) rest"
    have len: "length ?r < length bs" using Cons by (simp add: less_Suc_eq_le)
    note IH = less.hyps[OF len]
    show ?thesis
    proof (cases "classId d = c")
      case True
      have "filter (\<lambda>b. classId b = c) ?r = filter (keepAfter t d) (filter (\<lambda>b. classId b = c) rest)"
        by (simp add: conj_commute)
      with IH True Cons show ?thesis by (simp add: nmsLoop_Cons)
    next
      case False
      have "filter (\<lambda>b. classId b = c) ?r = filter (\<lambda>b. classId b = c) rest"
        using False by (auto simp: keepAfter_def intro: filter_cong)
      with IH False Cons show ?thesis by (simp add: nmsLoop_Cons)
    qed
  qed
qed

text \<open>
  C9. Candidates of different classes never suppress one another. A candidate of the
  input that is missing from the output was removed by a kept candidate of the same
  \<open>classId\<close> whose IoU with it is not below the threshold; and what
  \<^verbatim>\<open>applyNMS\<close> keeps of one class is what it keeps when the candidates of all other
  classes are taken away first, whatever their overlap.
\<close>

theorem applyNMS_class_isolation:
  "(\<forall>b \<in> set boxes. b \<notin> set (applyNMS t boxes) \<longrightarrow>
      (\<exists>k \<in> set (applyNMS t boxes). classId k = classId b \<and> \<not> calculateIoU k b < t)) \<and>
   filter (\<lambda>b. classId b = c) (applyNMS t boxes) = applyNMS t (filter (\<lambda>b. classId b = c) boxes)"
proof -
  have "set (sortByConfidence boxes) = set boxes" by (simp add: sortByConfidence_def)
  then have 1: "\<forall>b \<in> set boxes. b \<notin> set (applyNMS t boxes) \<longrightarrow>
      (\<exists>k \<in> set (applyNMS t boxes). classId k = classId b \<and> \<not> calculateIoU k b < t)"
    unfolding applyNMS_def using nmsLoop_removed[of _ "sortByConfidence boxes" t] by blast
  have "filter (\<lambda>b. classId b = c) (sortByConfidence boxes)
        = sortByConfidence (filter (\<lambda>b. classId b = c) boxes)"
    by (simp add: sortByConfidence_def filter_sort)
  then have 2: "filter (\<lambda>b. classId b = c) (applyNMS t boxes) = applyNMS t (filter (\<lambda>b. classId b = c) boxes)"
    by (simp add: applyNMS_def nmsLoop_filter_class)
  from 1 2 show ?thesis by simp
qed

theorem applyNMS_class_isolation_witness:
  "candB \<in> set [candB, candC, candA] \<and>
   candB \<notin> set (applyNMS (45 / 100) [candB, candC, candA]) \<and>
   (\<exists>k \<in> set (applyNMS (45 / 100) [candB, candC, candA]).
       classId k = classId candB \<and> \<not> calculateIoU k candB < 45 / 100) \<and>
   filter (\<lambda>b. classId b = 1) (applyNMS (45 / 100) [candB, candC, candA])
     = applyNMS (45 / 100) (filter (\<lambda>b. classId b = 1) [candB, candC, candA])"
proof -
  have out: "candB \<notin> set (applyNMS (45 / 100) [candB, candC, candA])"
    unfolding applyNMS_example by (simp add: candA_def candB_def candC_def)
  have "candB \<in> set [candB, candC, candA]" by simp
  with out applyNMS_class_isolation[of "[candB, candC, candA]" "45 / 100" 1]
  show ?thesis by blast
qed

section \<open>Properties of the decoder\<close>

lemma layout_first_iff:
  "channelFirstLayout ds n \<longleftrightarrow> (length ds = 3 \<and> ds ! 0 = 1 \<and> ds ! 1 = 4 + int n)"
  by (induction ds n rule: channelFirstLayout.induct) auto

lemma layout_last_iff:
  "channelLastLayout ds n \<longleftrightarrow> (length ds = 3 \<and> ds ! 0 = 1 \<and> ds ! 2 = 4 + int n)"
  by (induction ds n rule: channelLastLayout.induct) auto

lemma parse_error_iff:
  "parseYoloOnnxOutputCorrect data ds numClasses = Inl e
     \<longleftrightarrow> e = ShapeMismatch \<and> \<not> channelFirstLayout ds numClasses \<and> \<not> channelLastLayout ds numClasses"
  unfolding layout_first_iff layout_last_iff
  by (auto simp: parseYoloOnnxOutputCorrect_def Let_def)

lemma fitsShape_iff:
  "fitsShape n output \<longleftrightarrow> channelFirstLayout (dims output) n \<or> channelLastLayout (dims output) n"
  unfolding layout_first_iff layout_last_iff by (auto simp: fitsShape_def Let_def)

lemma pickDetOutput_fits:
  "pickDetOutput results n = Some output \<Longrightarrow>
     fitsShape n output \<longleftrightarrow> (\<exists>r \<in> set results. fitsShape n (snd r))"
  by (auto simp: pickDetOutput_def find_Some_iff find_None_iff split: option.splits list.splits)

lemma pickDetOutput_None: "pickDetOutput results n = None \<longleftrightarrow> results = []"
  by (auto simp: pickDetOutput_def find_None_iff split: option.splits list.splits)

text \<open>
  C7. The parser fails with \<open>ShapeMismatch\<close> exactly when the dimensions of the tensor
  match neither \<^verbatim>\<open>[1, 4+numClasses, N]\<close> nor \<^verbatim>\<open>[1, N, 4+numClasses]\<close>, and returns
  candidates exactly when one of them matches. With \<^verbatim>\<open>pickDetOutput\<close> in front, on a
  non-empty record of outputs, decoding fails with \<open>ShapeMismatch\<close> exactly when no
  output has one of the two layouts.
\<close>

theorem parse_shape_error_iff:
  "(parseYoloOnnxOutputCorrect data ds numClasses = Inl ShapeMismatch
      \<longleftrightarrow> \<not> channelFirstLayout ds numClasses \<and> \<not> channelLastLayout ds numClasses) \<and>
   ((channelFirstLayout ds numClasses \<or> channelLastLayout ds numClasses)
      \<longleftrightarrow> (\<exists>rs. parseYoloOnnxOutputCorrect data ds numClasses = Inr rs)) \<and>
   (results \<noteq> [] \<longrightarrow>
      (decodeOutput results numClasses = Inl ShapeMismatch
         \<longleftrightarrow> (\<forall>r \<in> set results. \<not> channelFirstLayout (dims (snd r)) numClasses \<and>
                                   \<not> channelLastLayout (dims (snd r)) numClasses)))"
proof (intro conjI impI)
  show "parseYoloOnnxOutputCorrect data ds numClasses = Inl ShapeMismatch
      \<longleftrightarrow> \<not> channelFirstLayout ds numClasses \<and> \<not> channelLastLayout ds numClasses"
    by (simp add: parse_error_iff)
  show "(channelFirstLayout ds numClasses \<or> channelLastLayout ds numClasses)
      \<longleftrightarrow> (\<exists>rs. parseYoloOnnxOutputCorrect data ds numClasses = Inr rs)"
  proof (cases "parseYoloOnnxOutputCorrect data ds numClasses")
    case (Inl e)
    then show ?thesis using parse_error_iff[of data ds numClasses e] by auto
  next
    case (Inr rs)
    then show ?thesis using parse_error_iff[of data ds numClasses ShapeMismatch] by auto
  qed
next
  assume ne: "results \<noteq> []"
  then obtain out where pick: "pickDetOutput results numClasses = Some out"
    using pickDetOutput_None[of results numClasses] by (cases "pickDetOutput results numClasses") auto
  have "decodeOutput results numClasses = Inl ShapeMismatch \<longleftrightarrow> \<not> fitsShape numClasses out"
    using pick by (simp add: decodeOutput_def parse_error_iff fitsShape_iff)
  also have "\<dots> \<longleftrightarrow> (\<forall>r \<in> set results. \<not> fitsShape numClasses (snd r))"
    using pickDetOutput_fits[OF pick] by blast
  finally show "decodeOutput results numClasses = Inl ShapeMismatch
         \<longleftrightarrow> (\<forall>r \<in> set results. \<not> channelFirstLayout (dims (snd r)) numClasses \<and>
                                   \<not> channelLastLayout (dims (snd r)) numClasses)"
    by (simp add: fitsShape_iff)
qed

lemma parse_example:
  "parseYoloOnnxOutputCorrect tensorData [1, 6, 1] 2
     = Inr [\<lparr>px = Some 400, py = Some 300, pw = Some 20, ph = Some 10,
              pclassId = 1, pconfidence = 7 / 10\<rparr>]"
  by (simp add: parseYoloOnnxOutputCorrect_def parseAnchor_def bestOf_def bestStep_def
      leZero_def readAt_def tensorData_def Let_def upt_rec)

theorem parse_shape_error_iff_witness:
  "channelFirstLayout [1, 6, 1] 2 \<and>
   parseYoloOnnxOutputCorrect tensorData [1, 6, 1] 2 \<noteq> Inl ShapeMismatch \<and>
   \<not> channelFirstLayout [1, 1, 6, 1] 2 \<and> \<not> channelLastLayout [1, 1, 6, 1] 2 \<and>
   parseYoloOnnxOutputCorrect tensorData [1, 1, 6, 1] 2 = Inl ShapeMismatch \<and>
   [(''output0'', \<lparr>tdata = tensorData, dims = [1, 1, 6, 1]\<rparr>)] \<noteq> [] \<and>
   decodeOutput [(''output0'', \<lparr>tdata = tensorData, dims = [1, 1, 6, 1]\<rparr>)] 2 = Inl ShapeMismatch"
  using parse_shape_error_iff[of tensorData "[1, 6, 1]" 2
          "[(''output0'', \<lparr>tdata = tensorData, dims = [1, 1, 6, 1]\<rparr>)]"]
    parse_shape_error_iff[of tensorData "[1, 1, 6, 1]" 2
          "[(''output0'', \<lparr>tdata = tensorData, dims = [1, 1, 6, 1]\<rparr>)]"]
  by simp

section \<open>Properties of the mapping back to image coordinates\<close>

lemma remapDetection_bounds:
  "0 \<le> x1 (ybox (remapDetection names W H s px0 py0 b)) \<and>
   0 \<le> y1 (ybox (remapDetection names W H s px0 py0 b)) \<and>
   x2 (ybox (remapDetection names W H s px0 py0 b)) \<le> W \<and>
   y2 (ybox (remapDetection names W H s px0 py0 b)) \<le> H"
  by (simp add: remapDetection_def Let_def)

text \<open>
  C4. The spec has every coordinate of a detection clamped into the image, with
  \<open>x1 \<le> x2\<close> and \<open>y1 \<le> y2\<close>. The mapping back bounds \<open>x1\<close> and \<open>y1\<close> from below only
  and \<open>x2\<close> and \<open>y2\<close> from above only (\<open>remapDetection_bounds\<close>). For the candidate
  \<open>candPad\<close>, which survives the suppression, it yields a box with \<open>x1 = 585\<close> in an
  image of width 400, and \<open>x2 = 400 < x1\<close>.
\<close>

theorem remap_leaves_bounds:
  "postprocessCandidates [''Receipt''] (1 / 10) (45 / 100) 400 800 1 200 0 [candPad]
     = [\<lparr>ylabel = Some ''Receipt'', yscore = 9 / 10,
          ybox = \<lparr>x1 = 585, y1 = 395, x2 = 400, y2 = 405\<rparr>\<rparr>]"
  by (simp add: postprocessCandidates_def applyNMS_def sortByConfidence_def nmsLoop_Cons
      remapDetection_def classLabel_def mathRound_def candPad_def Let_def)

section \<open>Properties of the constructor\<close>

lemma newDetector_Some:
  "newDetector classesTxt (Some opts) =
     (let d5 = \<lparr>modelPath = orString (opt_modelPath opts) ''./models/yolo/800-50/best.onnx'',
                INPUT_SIZE = orNumber (opt_inputSize opts) 800,
                CONFIDENCE_THRESHOLD = orNumber (opt_confidenceThreshold opts) (1 / 10),
                IOU_THRESHOLD = orNumber (opt_iouThreshold opts) (45 / 100),
                CLASS_NAMES = orArray (opt_classNames opts) []\<rparr>
      in if CLASS_NAMES d5 = []
         then (case classesTxt (modelPath d5) of
                 None \<Rightarrow> Inl EmptyClassList
               | Some ls \<Rightarrow> if ls = [] then Inl EmptyClassList else Inr (d5\<lparr>CLASS_NAMES := ls\<rparr>))
         else Inr d5)"
  by (simp add: newDetector_def detectAndReadClassesTxt_def Let_def split: option.splits)

lemma orNumber_zero: "orNumber (Some 0) b = b"
  by (simp add: orNumber_def)

lemma newDetector_fields:
  assumes "newDetector classesTxt (Some opts) = Inr d"
  shows "INPUT_SIZE d = orNumber (opt_inputSize opts) 800"
    and "CONFIDENCE_THRESHOLD d = orNumber (opt_confidenceThreshold opts) (1 / 10)"
    and "IOU_THRESHOLD d = orNumber (opt_iouThreshold opts) (45 / 100)"
  using assms unfolding newDetector_Some Let_def
  by (auto split: if_splits option.splits)

lemma newDetector_empty_names:
  assumes "opt_classNames opts = Some [] \<or> opt_classNames opts = None"
  shows "newDetector classesTxt (Some opts) =
     (case classesTxt (orString (opt_modelPath opts) ''./models/yolo/800-50/best.onnx'') of
        None \<Rightarrow> Inl EmptyClassList
      | Some ls \<Rightarrow> if ls = [] then Inl EmptyClassList
                   else Inr \<lparr>modelPath = orString (opt_modelPath opts) ''./models/yolo/800-50/best.onnx'',
                             INPUT_SIZE = orNumber (opt_inputSize opts) 800,
                             CONFIDENCE_THRESHOLD = orNumber (opt_confidenceThreshold opts) (1 / 10),
                             IOU_THRESHOLD = orNumber (opt_iouThreshold opts) (45 / 100),
                             CLASS_NAMES = ls\<rparr>)"
  using assms unfolding newDetector_Some Let_def
  by (auto simp: orArray_def split: option.splits)

text \<open>
  C10. A \<open>confidenceThreshold\<close>, \<open>iouThreshold\<close> or \<open>inputSize\<close> of 0 in the options is
  replaced by the default (0.1, 0.45, 800) in the detector that is constructed. An
  empty \<open>classNames\<close> behaves as an absent one: the classes are read from
  \<^verbatim>\<open>classes.txt\<close>, and the construction fails when that gives no class either.
\<close>

theorem constructor_falsy_defaults:
  "(newDetector classesTxt (Some opts) = Inr d \<longrightarrow>
      (opt_confidenceThreshold opts = Some 0 \<longrightarrow> CONFIDENCE_THRESHOLD d = 1 / 10) \<and>
      (opt_iouThreshold opts = Some 0 \<longrightarrow> IOU_THRESHOLD d = 45 / 100) \<and>
      (opt_inputSize opts = Some 0 \<longrightarrow> INPUT_SIZE d = 800)) \<and>
   newDetector classesTxt (Some (opts\<lparr>opt_classNames := Some []\<rparr>))
     = newDetector classesTxt (Some (opts\<lparr>opt_classNames := None\<rparr>)) \<and>
   (opt_classNames opts = Some [] \<longrightarrow>
      (case newDetector classesTxt (Some opts) of
         Inl e \<Rightarrow> e = EmptyClassList \<and>
           (classesTxt (orString (opt_modelPath opts) ''./models/yolo/800-50/best.onnx'') = None \<or>
            classesTxt (orString (opt_modelPath opts) ''./models/yolo/800-50/best.onnx'') = Some [])
       | Inr d' \<Rightarrow> CLASS_NAMES d' \<noteq> [] \<and>
           classesTxt (orString (opt_modelPath opts) ''./models/yolo/800-50/best.onnx'')
             = Some (CLASS_NAMES d')))"
proof (intro conjI impI)
  assume "newDetector classesTxt (Some opts) = Inr d"
  note f = newDetector_fields[OF this]
  show "opt_confidenceThreshold opts = Some 0 \<Longrightarrow> CONFIDENCE_THRESHOLD d = 1 / 10"
    using f(2) by (simp only: orNumber_zero)
  show "opt_iouThreshold opts = Some 0 \<Longrightarrow> IOU_THRESHOLD d = 45 / 100"
    using f(3) by (simp only: orNumber_zero)
  show "opt_inputSize opts = Some 0 \<Longrightarrow> INPUT_SIZE d = 800"
    using f(1) by (simp only: orNumber_zero)
next
  show "newDetector classesTxt (Some (opts\<lparr>opt_classNames := Some []\<rparr>))
     = newDetector classesTxt (Some (opts\<lparr>opt_classNames := None\<rparr>))"
    by (simp add: newDetector_empty_names split: option.splits)
next
  assume "opt_classNames opts = Some []"
  then show "case newDetector classesTxt (Some opts) of
         Inl e \<Rightarrow> e = EmptyClassList \<and>
           (classesTxt (orString (opt_modelPath opts) ''./models/yolo/800-50/best.onnx'') = None \<or>
            classesTxt (orString (opt_modelPath opts) ''./models/yolo/800-50/best.onnx'') = Some [])
       | Inr d' \<Rightarrow> CLASS_NAMES d' \<noteq> [] \<and>
           classesTxt (orString (opt_modelPath opts) ''./models/yolo/800-50/best.onnx'')
             = Some (CLASS_NAMES d')"
    by (simp add: newDetector_empty_names split: option.splits)
qed

theorem constructor_falsy_defaults_witness:
  "newDetector (\<lambda>p. Some [''Receipt''])
      (Some \<lparr>opt_modelPath = None, opt_inputSize = Some 0, opt_confidenceThreshold = Some 0,
             opt_iouThreshold = Some 0, opt_classNames = Some []\<rparr>)
     = Inr \<lparr>modelPath = ''./models/yolo/800-50/best.onnx'', INPUT_SIZE = 800,
            CONFIDENCE_THRESHOLD = 1 / 10, IOU_THRESHOLD = 45 / 100, CLASS_NAMES = [''Receipt'']\<rparr> \<and>
   newDetector (\<lambda>p. None)
      (Some \<lparr>opt_modelPath = None, opt_inputSize = Some 0, opt_confidenceThreshold = Some 0,
             opt_iouThreshold = Some 0, opt_classNames = Some []\<rparr>)
     = Inl EmptyClassList"
proof -
  let ?o = "\<lparr>opt_modelPath = None, opt_inputSize = Some 0, opt_confidenceThreshold = Some 0,
             opt_iouThreshold = Some 0, opt_classNames = Some []\<rparr>"
  let ?env = "\<lambda>p::string. Some [''Receipt'']"
  have names: "opt_classNames ?o = Some []" by simp
  obtain d where d: "newDetector ?env (Some ?o) = Inr d"
    using constructor_falsy_defaults[of ?env ?o undefined] names
    by (cases "newDetector ?env (Some ?o)") auto
  have "CONFIDENCE_THRESHOLD d = 1 / 10" "IOU_THRESHOLD d = 45 / 100" "INPUT_SIZE d = 800"
       "CLASS_NAMES d = [''Receipt'']"
    using constructor_falsy_defaults[of ?env ?o d] d by simp_all
  moreover have "modelPath d = ''./models/yolo/800-50/best.onnx''"
    using d by (simp add: newDetector_empty_names orString_def) auto
  ultimately have 1: "newDetector ?env (Some ?o)
     = Inr \<lparr>modelPath = ''./models/yolo/800-50/best.onnx'', INPUT_SIZE = 800,
            CONFIDENCE_THRESHOLD = 1 / 10, IOU_THRESHOLD = 45 / 100, CLASS_NAMES = [''Receipt'']\<rparr>"
    using d by (cases d) simp
  have 2: "newDetector (\<lambda>p. None) (Some ?o) = Inl EmptyClassList"
    using constructor_falsy_defaults[of "\<lambda>p. None" ?o undefined] names
    by (cases "newDetector (\<lambda>p. None) (Some ?o)") auto
  from 1 2 show ?thesis by simp
qed

section \<open>Properties of the refinement\<close>

lemmas refine_eval =
  refineDocumentAnalysis_def beforeUpsert_def beforeUnknown_def afterScreenshot_def
  beforeScreenshot_def buildConfig_def DEFAULT_TOL_def orElse_def retypeStage_def pickMainType_def
  byClassStep_def preferred_def boost_def
  primaryBoxStage_def adoptPrimary_def clampPrimary_def clamp_def extractBarsStage_def barsOf_def
  restOf_def isBar_def
  screenshotStage_def needSwitchToAlt_def screenshotScore_def scoreScreenshot_def
  bestScreenshotOf_def screenshotContainer_def topValidated_def botValidated_def
  validateBarNoMutate_def altOf_def altScoreOf_def altTypeOf_def bestByScore_def jsDiv_def
  resolveStage_def replacePrimaryStage_def unknownStage_def hasNearFullDoc_def
  fullDoc_def fullFrame_def upsertPrimaryDetection_def bestIouFor_def wantedLabel_def
  iou_def intersect_def area_def
  mkResult_def mkDetection_def copy_def emptyMeta_def Let_def

lemma upsert_summary: "wsummary (upsertPrimaryDetection w l) = wsummary w"
  by (simp add: upsertPrimaryDetection_def split: option.splits)

lemma refine_summary:
  "summary (refineDocumentAnalysis input options) = wsummary (beforeUpsert input options)"
  by (simp add: refineDocumentAnalysis_def Let_def upsert_summary)

lemma refine_detections:
  "detections (refineDocumentAnalysis input options)
     = outDetections (upsertPrimaryDetection (beforeUpsert input options)
         (wantedLabel (documentType (wsummary (beforeUpsert input options)))))"
  by (simp add: refineDocumentAnalysis_def Let_def)

lemma unknownStage_type:
  "documentType (wsummary (unknownStage input w)) = documentType (wsummary w)"
  by (simp add: unknownStage_def Let_def split: option.splits)

lemma wantedLabel_None: "wantedLabel t = None \<longleftrightarrow> t = UNKNOWN"
  by (cases t) (simp_all add: wantedLabel_def)

lemma bestIouFor_acc:
  "foldl (\<lambda>bestIou d. if label d \<noteq> lbl then bestIou
                          else if iou (box d) pb > bestIou then iou (box d) pb else bestIou) a ds \<ge> r
    \<longleftrightarrow> a \<ge> r \<or> (\<exists>d \<in> set ds. label d = lbl \<and> iou (box d) pb \<ge> r)"
proof (induction ds arbitrary: a)
  case Nil
  show ?case by simp
next
  case (Cons d ds)
  show ?case by (simp add: Cons.IH) (auto simp: not_less)
qed

lemma bestIouFor_ge:
  "0 < r \<Longrightarrow> bestIouFor lbl pb ds \<ge> r \<longleftrightarrow> (\<exists>d \<in> set ds. label d = lbl \<and> iou (box d) pb \<ge> r)"
  unfolding bestIouFor_def bestIouFor_acc by auto

lemma intersect_self: "intersect b b = b"
  by (simp add: intersect_def)

lemma iou_self: "0 < area b \<Longrightarrow> iou b b = 1"
  by (simp add: iou_def intersect_self Let_def)

lemma upsert_None: "upsertPrimaryDetection w None = w"
  by (simp add: upsertPrimaryDetection_def split: option.splits)

lemma refine_unknown_type:
  "documentType (summary (refineDocumentAnalysis input options)) = UNKNOWN
     \<longleftrightarrow> documentType (wsummary (beforeUnknown input options)) = UNKNOWN"
  by (simp add: refine_summary beforeUpsert_def unknownStage_type)

lemma hasNearFullDoc_iff:
  "hasNearFullDoc input \<longleftrightarrow>
     (\<exists>d \<in> set (detections input). (label d = ''Document'' \<or> label d = ''Screenshot'') \<and>
         iou (box d) (fullFrame (width (imageMeta input)) (height (imageMeta input))) > 95 / 100)"
  by (simp add: hasNearFullDoc_def fullDoc_def list_ex_iff)

text \<open>
  C3 (amended). Whenever the final type is Unknown: the full-frame Document detection
  (score 0, synthetic, source fallback) is put in front of the detections of the
  earlier stages unless a Document or Screenshot detection of the input has an IoU
  with the full frame strictly above 0.95, in which case the list is left as it is;
  the primary box is the one of the earlier stages, or the full frame when there was
  none; and \<open>quality.isPartial\<close> is false.
\<close>

theorem unknown_fallback:
  assumes "documentType (summary (refineDocumentAnalysis input options)) = UNKNOWN"
  shows "detections (refineDocumentAnalysis input options) =
           (if (\<exists>d \<in> set (detections input).
                   (label d = ''Document'' \<or> label d = ''Screenshot'') \<and>
                   iou (box d) (fullFrame (width (imageMeta input)) (height (imageMeta input))) > 95 / 100)
            then outDetections (beforeUnknown input options)
            else \<lparr>label = ''Document'', score = 0,
                   box = fullFrame (width (imageMeta input)) (height (imageMeta input)),
                   meta = Some \<lparr>synthetic = Some True, adjusted = None, source = Some Src_fallback,
                                 reason = Some ''unknown_full_frame'', validated = None,
                                 metrics = None\<rparr>\<rparr>
                 # outDetections (beforeUnknown input options)) \<and>
         primaryBox (summary (refineDocumentAnalysis input options)) =
           Some (orElse (primaryBox (wsummary (beforeUnknown input options)))
                   (fullFrame (width (imageMeta input)) (height (imageMeta input)))) \<and>
         isPartial (quality (summary (refineDocumentAnalysis input options))) = Some False"
proof -
  let ?w = "beforeUnknown input options"
  from assms have u: "documentType (wsummary ?w) = UNKNOWN"
    by (simp add: refine_unknown_type)
  then have t9: "documentType (wsummary (beforeUpsert input options)) = UNKNOWN"
    by (simp add: beforeUpsert_def unknownStage_type)
  have dets: "detections (refineDocumentAnalysis input options)
                = outDetections (unknownStage input ?w)"
    by (simp add: refine_detections t9 wantedLabel_def upsert_None) (simp add: beforeUpsert_def)
  have summ: "summary (refineDocumentAnalysis input options) = wsummary (unknownStage input ?w)"
    by (simp add: refine_summary beforeUpsert_def)
  show ?thesis
    unfolding dets summ hasNearFullDoc_iff[symmetric]
    using u by (simp add: unknownStage_def Let_def fullDoc_def emptyMeta_def orElse_def
        split: option.splits)
qed

theorem unknown_fallback_witness:
  "documentType (summary (refineDocumentAnalysis emptyUnknown None)) = UNKNOWN \<and>
   detections emptyUnknown = [] \<and>
   detections (refineDocumentAnalysis emptyUnknown None) =
     [\<lparr>label = ''Document'', score = 0, box = \<lparr>x1 = 0, y1 = 0, x2 = 800, y2 = 600\<rparr>,
       meta = Some \<lparr>synthetic = Some True, adjusted = None, source = Some Src_fallback,
                     reason = Some ''unknown_full_frame'', validated = None, metrics = None\<rparr>\<rparr>] \<and>
   primaryBox (summary (refineDocumentAnalysis emptyUnknown None))
     = Some \<lparr>x1 = 0, y1 = 0, x2 = 800, y2 = 600\<rparr> \<and>
   isPartial (quality (summary (refineDocumentAnalysis emptyUnknown None))) = Some False"
proof -
  have t: "documentType (summary (refineDocumentAnalysis emptyUnknown None)) = UNKNOWN"
    by (simp add: refine_eval emptyUnknown_def)
  have b: "outDetections (beforeUnknown emptyUnknown None) = []"
          "primaryBox (wsummary (beforeUnknown emptyUnknown None)) = None"
    by (simp_all add: refine_eval emptyUnknown_def)
  have i: "detections emptyUnknown = []" "width (imageMeta emptyUnknown) = 800"
          "height (imageMeta emptyUnknown) = 600"
    by (simp_all add: emptyUnknown_def mkResult_def)
  from unknown_fallback[OF t] show ?thesis
    unfolding b i using t by (simp add: fullFrame_def orElse_def)
qed

text \<open>
  C3, as the spec words it, with "at least 0.95" for the existing detection, fails on
  the boundary. For \<open>nearFullUnknown\<close>, with retyping off, the type stays Unknown, the
  Document detection has an IoU of 0.95 with the frame, and the synthetic detection is
  put in front of it all the same.
\<close>

theorem unknown_fallback_counterexample:
  "documentType (summary (refineDocumentAnalysis nearFullUnknown (Some noRetype))) = UNKNOWN \<and>
   (\<exists>d \<in> set (detections nearFullUnknown).
       label d = ''Document'' \<and> iou (box d) (fullFrame 100 100) \<ge> 95 / 100) \<and>
   detections (refineDocumentAnalysis nearFullUnknown (Some noRetype))
     = fullDoc 100 100 # detections nearFullUnknown"
  by (simp add: refine_eval nearFullUnknown_def noRetype_def)

lemma upsert_Some:
  "primaryBox (wsummary w) = Some pb \<Longrightarrow>
   outDetections (upsertPrimaryDetection w (Some lbl)) =
     (if (\<exists>d \<in> set (outDetections w). label d = lbl \<and> iou (box d) pb \<ge> 9 / 10)
      then outDetections w
      else outDetections w @
             [\<lparr>label = lbl, score = orElse (confidence (wsummary w)) 0, box = pb,
               meta = Some \<lparr>synthetic = Some True, adjusted = None, source = Some Src_refine,
                             reason = Some ''matches_primaryBox'', validated = None,
                             metrics = None\<rparr>\<rparr>])"
  using bestIouFor_ge[of "9 / 10" lbl pb "outDetections w"]
  by (simp add: upsertPrimaryDetection_def emptyMeta_def)

text \<open>
  C1 (amended). When the output has a primary box and its final type is Receipt,
  Document or Screenshot, the final list is the list of the earlier stages if that
  holds a detection with the label of the type and an IoU of at least 0.90 with the
  primary box, and else that list with a synthetic detection appended (score the
  final confidence, box the primary box, synthetic, source refine); if the primary
  box has a positive area, the final list holds a detection with that label and an
  IoU of at least 0.90 with the primary box. When the final type is Unknown, this
  stage adds nothing.
\<close>

theorem primary_detection_invariant:
  "(primaryBox (summary (refineDocumentAnalysis input options)) = Some pb \<and>
    wantedLabel (documentType (summary (refineDocumentAnalysis input options))) = Some lbl \<longrightarrow>
      detections (refineDocumentAnalysis input options) =
        (if (\<exists>d \<in> set (outDetections (beforeUpsert input options)).
                label d = lbl \<and> iou (box d) pb \<ge> 9 / 10)
         then outDetections (beforeUpsert input options)
         else outDetections (beforeUpsert input options) @
                [\<lparr>label = lbl,
                  score = orElse (confidence (summary (refineDocumentAnalysis input options))) 0,
                  box = pb,
                  meta = Some \<lparr>synthetic = Some True, adjusted = None, source = Some Src_refine,
                                reason = Some ''matches_primaryBox'', validated = None,
                                metrics = None\<rparr>\<rparr>]) \<and>
      (0 < area pb \<longrightarrow>
         (\<exists>d \<in> set (detections (refineDocumentAnalysis input options)).
             label d = lbl \<and> iou (box d) pb \<ge> 9 / 10))) \<and>
   (documentType (summary (refineDocumentAnalysis input options)) = UNKNOWN \<longrightarrow>
      detections (refineDocumentAnalysis input options) = outDetections (beforeUpsert input options))"
proof (intro conjI impI)
  assume "documentType (summary (refineDocumentAnalysis input options)) = UNKNOWN"
  then show "detections (refineDocumentAnalysis input options)
               = outDetections (beforeUpsert input options)"
    by (simp add: refine_detections refine_summary wantedLabel_def upsert_None)
next
  assume a: "primaryBox (summary (refineDocumentAnalysis input options)) = Some pb \<and>
    wantedLabel (documentType (summary (refineDocumentAnalysis input options))) = Some lbl"
  let ?w = "beforeUpsert input options"
  from a have pb: "primaryBox (wsummary ?w) = Some pb"
    and lbl: "wantedLabel (documentType (wsummary ?w)) = Some lbl"
    by (simp_all add: refine_summary)
  show d: "detections (refineDocumentAnalysis input options) =
        (if (\<exists>d \<in> set (outDetections ?w). label d = lbl \<and> iou (box d) pb \<ge> 9 / 10)
         then outDetections ?w
         else outDetections ?w @
                [\<lparr>label = lbl,
                  score = orElse (confidence (summary (refineDocumentAnalysis input options))) 0,
                  box = pb,
                  meta = Some \<lparr>synthetic = Some True, adjusted = None, source = Some Src_refine,
                                reason = Some ''matches_primaryBox'', validated = None,
                                metrics = None\<rparr>\<rparr>])"
    unfolding refine_detections lbl upsert_Some[OF pb] refine_summary ..
  assume pos: "0 < area pb"
  show "\<exists>d \<in> set (detections (refineDocumentAnalysis input options)).
             label d = lbl \<and> iou (box d) pb \<ge> 9 / 10"
  proof (cases "\<exists>d \<in> set (outDetections ?w). label d = lbl \<and> iou (box d) pb \<ge> 9 / 10")
    case True
    then show ?thesis unfolding d by simp
  next
    case False
    then show ?thesis unfolding d using iou_self[OF pos] by simp
  qed
qed

theorem primary_detection_invariant_witness:
  "primaryBox (summary (refineDocumentAnalysis primaryOnlyDocument None))
     = Some \<lparr>x1 = 0, y1 = 0, x2 = 50, y2 = 50\<rparr> \<and>
   wantedLabel (documentType (summary (refineDocumentAnalysis primaryOnlyDocument None)))
     = Some ''Document'' \<and>
   outDetections (beforeUpsert primaryOnlyDocument None) = [] \<and>
   0 < area \<lparr>x1 = 0, y1 = 0, x2 = 50, y2 = 50\<rparr> \<and>
   detections (refineDocumentAnalysis primaryOnlyDocument None) =
     [\<lparr>label = ''Document'', score = 5 / 10, box = \<lparr>x1 = 0, y1 = 0, x2 = 50, y2 = 50\<rparr>,
       meta = Some \<lparr>synthetic = Some True, adjusted = None, source = Some Src_refine,
                     reason = Some ''matches_primaryBox'', validated = None, metrics = None\<rparr>\<rparr>] \<and>
   (\<exists>d \<in> set (detections (refineDocumentAnalysis primaryOnlyDocument None)).
       label d = ''Document'' \<and> iou (box d) \<lparr>x1 = 0, y1 = 0, x2 = 50, y2 = 50\<rparr> \<ge> 9 / 10)"
proof -
  have s: "summary (refineDocumentAnalysis primaryOnlyDocument None)
     = (summary primaryOnlyDocument)\<lparr>quality := (quality (summary primaryOnlyDocument))\<lparr>isPartial := Some False\<rparr>\<rparr>"
    by (simp add: refine_eval primaryOnlyDocument_def)
  have p: "primaryBox (summary (refineDocumentAnalysis primaryOnlyDocument None))
     = Some \<lparr>x1 = 0, y1 = 0, x2 = 50, y2 = 50\<rparr>"
    and l: "wantedLabel (documentType (summary (refineDocumentAnalysis primaryOnlyDocument None)))
     = Some ''Document''"
    and c: "confidence (summary (refineDocumentAnalysis primaryOnlyDocument None)) = Some (5 / 10)"
    unfolding s by (simp_all add: primaryOnlyDocument_def mkResult_def wantedLabel_def)
  have b: "outDetections (beforeUpsert primaryOnlyDocument None) = []"
    by (simp add: refine_eval primaryOnlyDocument_def)
  have a: "0 < area \<lparr>x1 = 0, y1 = 0, x2 = 50, y2 = 50\<rparr>"
    by (simp add: area_def)
  note inv = primary_detection_invariant[of primaryOnlyDocument None
      "\<lparr>x1 = 0, y1 = 0, x2 = 50, y2 = 50\<rparr>" "''Document''"]
  from inv p l a
  have e: "\<exists>d \<in> set (detections (refineDocumentAnalysis primaryOnlyDocument None)).
       label d = ''Document'' \<and> iou (box d) \<lparr>x1 = 0, y1 = 0, x2 = 50, y2 = 50\<rparr> \<ge> 9 / 10"
    by blast
  from inv p l
  have "detections (refineDocumentAnalysis primaryOnlyDocument None) =
        (if (\<exists>d \<in> set (outDetections (beforeUpsert primaryOnlyDocument None)).
                label d = ''Document'' \<and> iou (box d) \<lparr>x1 = 0, y1 = 0, x2 = 50, y2 = 50\<rparr> \<ge> 9 / 10)
         then outDetections (beforeUpsert primaryOnlyDocument None)
         else outDetections (beforeUpsert primaryOnlyDocument None) @
                [\<lparr>label = ''Document'',
                  score = orElse (confidence (summary (refineDocumentAnalysis primaryOnlyDocument None))) 0,
                  box = \<lparr>x1 = 0, y1 = 0, x2 = 50, y2 = 50\<rparr>,
                  meta = Some \<lparr>synthetic = Some True, adjusted = None, source = Some Src_refine,
                                reason = Some ''matches_primaryBox'', validated = None,
                                metrics = None\<rparr>\<rparr>])"
    by blast
  then have "detections (refineDocumentAnalysis primaryOnlyDocument None) =
     [\<lparr>label = ''Document'', score = 5 / 10, box = \<lparr>x1 = 0, y1 = 0, x2 = 50, y2 = 50\<rparr>,
       meta = Some \<lparr>synthetic = Some True, adjusted = None, source = Some Src_refine,
                     reason = Some ''matches_primaryBox'', validated = None, metrics = None\<rparr>\<rparr>]"
    unfolding b c by (simp add: orElse_def)
  note this e
  with p l b a show ?thesis by blast
qed

text \<open>
  C1, as the spec words it, for every final type, fails for Unknown. For
  \<open>smallPrimaryUnknown\<close> the final type is Unknown, the output has its primary box of
  10 by 10, and no detection of the final list, whatever its label, has an IoU of 0.90
  or more with it.
\<close>

theorem primary_detection_invariant_counterexample:
  "documentType (summary (refineDocumentAnalysis smallPrimaryUnknown None)) = UNKNOWN \<and>
   primaryBox (summary (refineDocumentAnalysis smallPrimaryUnknown None))
     = Some \<lparr>x1 = 0, y1 = 0, x2 = 10, y2 = 10\<rparr> \<and>
   \<not> (\<exists>d \<in> set (detections (refineDocumentAnalysis smallPrimaryUnknown None)).
          iou (box d) \<lparr>x1 = 0, y1 = 0, x2 = 10, y2 = 10\<rparr> \<ge> 9 / 10)"
  by (simp add: refine_eval smallPrimaryUnknown_def)

text \<open>
  The positive area is needed: for \<open>lineDocument\<close> the final type is Document, the
  primary box is a line, the synthetic detection is appended, and its IoU with the
  primary box is 0.
\<close>

lemma primary_detection_degenerate:
  "documentType (summary (refineDocumentAnalysis lineDocument None)) = DOCUMENT \<and>
   primaryBox (summary (refineDocumentAnalysis lineDocument None))
     = Some \<lparr>x1 = 10, y1 = 0, x2 = 10, y2 = 100\<rparr> \<and>
   \<not> (\<exists>d \<in> set (detections (refineDocumentAnalysis lineDocument None)).
          iou (box d) \<lparr>x1 = 10, y1 = 0, x2 = 10, y2 = 100\<rparr> \<ge> 9 / 10)"
  by (simp add: refine_eval lineDocument_def)


lemma bestByScore_None: "bestByScore p ds = None \<longleftrightarrow> \<not> (\<exists>d \<in> set ds. p d)"
proof -
  have "sort_key (\<lambda>d. - score d) (filter p ds) = [] \<longleftrightarrow> filter p ds = []"
    using length_sort[of "\<lambda>d. - score d" "filter p ds"] by (metis length_0_conv)
  then show ?thesis
    by (auto simp: bestByScore_def filter_empty_conv split: list.splits)
qed



















lemma iou_zero_union: "area a + area b - area (intersect a b) \<le> 0 \<Longrightarrow> iou a b = 0"
  by (simp add: iou_def Let_def)

lemma clampPrimary_zero_frame:
  assumes "W * H = 0" "primaryBox (wsummary w) = Some pb" "0 < minPrimaryAreaFrac (tol cfg)"
  shows "isPartial (quality (wsummary (clampPrimary cfg W H w))) = Some True"
  using assms by (auto simp: clampPrimary_def Let_def)

text \<open>
  C8. The spec has every coverage evaluate to 0 on a frame of size zero. The IoU of
  two boxes whose union has no area is 0 (\<open>iou_zero_union\<close>), and stage 3 takes the
  coverage of the primary box to be 0 on such a frame (\<open>clampPrimary_zero_frame\<close>). But
  for the frame of size zero of \<open>zeroFrameScreenshot\<close>, \<^verbatim>\<open>scoreScreenshot\<close> divides the
  area of the container by 0: the coverage is \<open>Infinity\<close>, not 0, the bonus for
  coverage is added to the confidence (0.55 instead of 0.5), and the primary box is the
  container instead of the full frame. With no Screenshot detection the container is
  the empty full frame and the coverage is NaN. Nothing is thrown: the function
  returns a result.
\<close>

theorem zero_frame_coverage:
  "screenshotScore (buildConfig None) zeroFrameScreenshot (beforeScreenshot zeroFrameScreenshot None)
     = (55 / 100, PosInfinity, 0) \<and>
   confidence (summary (refineDocumentAnalysis zeroFrameScreenshot None)) = Some (55 / 100) \<and>
   primaryBox (summary (refineDocumentAnalysis zeroFrameScreenshot None))
     = Some \<lparr>x1 = 0, y1 = 0, x2 = 10, y2 = 10\<rparr> \<and>
   jsDiv (area (fullFrame 0 0)) (0 * 0) = NaN"
  by (simp add: refine_eval zeroFrameScreenshot_def)

text \<open>
  The detection that \<^verbatim>\<open>pickMainType\<close> returns carries one of the three labels, and the
  type returned with it is the type of that label: \<open>preferred\<close> is defined where the
  function reads it.
\<close>

lemma mapSet_set: "set (mapSet m k v) \<subseteq> insert (k, v) (set m)"
  by (induction m) auto

lemma find_in_set: "find q xs = Some v \<Longrightarrow> v \<in> set xs"
  by (induction xs) (auto split: if_splits)

lemma byClassStep_ok: "list_all entryOk m \<Longrightarrow> list_all entryOk (byClassStep m d)"
proof -
  assume m: "list_all entryOk m"
  have "entryOk (label d, d)" if "preferred (label d) \<noteq> None"
    using that by (simp add: entryOk_def)
  then have "list_all entryOk (mapSet m (label d) d)" if "preferred (label d) \<noteq> None"
    using that m mapSet_set[of m "label d" d] by (auto simp: list_all_iff)
  with m show ?thesis
    by (simp add: byClassStep_def split: option.splits)
qed

lemma byClass_ok: "list_all entryOk m \<Longrightarrow> list_all entryOk (foldl byClassStep m ds)"
  by (induction ds arbitrary: m) (simp_all add: byClassStep_ok)

lemma pickMainType_defined:
  assumes "snd (snd (fst (pickMainType result tolr ns))) = Some p"
  shows "preferred (label p) = Some (fst (fst (pickMainType result tolr ns)))"
proof -
  define byClass where "byClass = foldl byClassStep [] (detections result)"
  define cand where "cand = sort_key
      (\<lambda>c. - boost (list_ex (\<lambda>d. label d = ''Top status bar'') (detections result) \<or>
                     list_ex (\<lambda>d. label d = ''Bottom nav bar'') (detections result))
                (fst c) (score (snd c))) byClass"
  from assms have ne: "byClass \<noteq> []"
    by (auto simp: pickMainType_def Let_def byClass_def split: if_splits)
  have "length cand = length byClass" by (simp add: cand_def)
  with ne have cne: "cand \<noteq> []" by (metis length_0_conv)
  have ok: "list_all entryOk byClass" unfolding byClass_def by (rule byClass_ok) simp
  have sub: "set cand = set byClass" by (simp add: cand_def)
  have hd: "hd cand \<in> set cand" by (rule hd_in_set[OF cne])
  have fnd: "orElse (find q cand) (hd cand) \<in> set cand" for q
    using hd find_in_set[of q cand] by (cases "find q cand") (simp_all add: orElse_def)
  define tie where "tie = (case tl cand of
                         [] \<Rightarrow> False
                       | second # others \<Rightarrow>
                           \<bar>score (snd (hd cand)) - score (snd second)\<bar> < classMargin tolr)"
  define picked where "picked =
                  (if tie
                   then (if list_ex (\<lambda>d. label d = ''Top status bar'') (detections result) \<or>
                            list_ex (\<lambda>d. label d = ''Bottom nav bar'') (detections result)
                         then (orElse (find (\<lambda>c. fst c = ''Screenshot'') cand) (hd cand),
                               ns @ [NoteTieScreenshot])
                         else if aspectRatio (imageMeta result) \<ge> 65 / 100 \<and>
                                 map_of byClass ''Document'' \<noteq> None
                         then (orElse (find (\<lambda>c. fst c = ''Document'') cand) (hd cand),
                               ns @ [NoteTieDocument])
                         else (hd cand, ns))
                   else (hd cand, ns))"
  have pk: "fst picked \<in> set cand"
    unfolding picked_def using hd fnd by simp
  have res: "fst (pickMainType result tolr ns)
                = (the (preferred (fst (fst picked))), score (snd (fst picked)), Some (snd (fst picked)))"
    using ne
    unfolding pickMainType_def Let_def byClass_def[symmetric] cand_def[symmetric]
      tie_def[symmetric] picked_def[symmetric]
    by simp
  define pick where "pick = fst picked"
  note pk = pk[folded pick_def] and res = res[folded pick_def]
  from pk sub ok have "entryOk pick" by (simp add: list_all_iff)
  moreover from res assms have "p = snd pick" by simp
  ultimately show ?thesis using res by (auto simp: entryOk_def)
qed

section \<open>The store is only extended\<close>

lemma extends_refl: "extends h h"
  by (simp add: extends_def)

lemma extends_length: "extends h0 h \<Longrightarrow> length h0 \<le> length h"
proof -
  assume "extends h0 h"
  then have "length (take (length h0) h) = length h0" by (simp add: extends_def)
  then show ?thesis by simp
qed

lemma extends_alloc: "extends h0 h \<Longrightarrow> extends h0 (alloc h v)"
  using extends_length[of h0 h] by (simp add: extends_def alloc_def)

lemma extends_assign: "extends h0 h \<Longrightarrow> length h0 \<le> a \<Longrightarrow> extends h0 (assign h a f)"
  by (simp add: extends_def assign_def)

lemma length_alloc: "length (alloc h v) = Suc (length h)"
  by (simp add: alloc_def)

lemma length_assign: "length (assign h a f) = length h"
  by (simp add: assign_def)

lemma nth_alloc: "i < length h \<Longrightarrow> alloc h v ! i = h ! i"
  by (simp add: alloc_def nth_append)

lemma nth_alloc_new: "alloc h v ! length h = v"
  by (simp add: alloc_def)

lemma sumRefs_assign:
  "(\<And>v. sumRefs (f v) = sumRefs v) \<Longrightarrow> sumRefs (assign h a f ! i) = sumRefs (h ! i)"
  by (simp add: assign_def nth_list_update)

lemma fresh_extends: "fresh h0 h s \<Longrightarrow> extends h0 h"
  by (simp add: fresh_def)

lemma fresh_length: "fresh h0 h s \<Longrightarrow> length h0 \<le> length h"
  by (simp add: fresh_def extends_length)

lemma fresh_alloc: "fresh h0 h s \<Longrightarrow> fresh h0 (alloc h v) s"
  by (simp add: fresh_def extends_alloc length_alloc nth_alloc)

lemma fresh_assign:
  "fresh h0 h s \<Longrightarrow> length h0 \<le> a \<Longrightarrow> (\<And>v. sumRefs (f v) = sumRefs v) \<Longrightarrow> fresh h0 (assign h a f) s"
  by (simp add: fresh_def extends_assign length_assign sumRefs_assign)

lemma fresh_setBox: "fresh h0 h s \<Longrightarrow> length h0 \<le> a \<Longrightarrow> fresh h0 (setBox h a b) s"
  unfolding setBox_def by (rule fresh_assign) (simp_all add: sumRefs_def split: obj.splits)

lemma fresh_setMeta: "fresh h0 h s \<Longrightarrow> length h0 \<le> a \<Longrightarrow> fresh h0 (setMeta h a m) s"
  unfolding setMeta_def by (rule fresh_assign) (simp_all add: sumRefs_def split: obj.splits)

lemma fresh_pushArr: "fresh h0 h s \<Longrightarrow> length h0 \<le> a \<Longrightarrow> fresh h0 (pushArr h a e) s"
  unfolding pushArr_def by (rule fresh_assign) (simp_all add: sumRefs_def split: obj.splits)

lemma fresh_setArr: "fresh h0 h s \<Longrightarrow> length h0 \<le> a \<Longrightarrow> fresh h0 (setArr h a ys) s"
  unfolding setArr_def by (rule fresh_assign) (simp_all add: sumRefs_def split: obj.splits)

lemma fresh_setIsPartial: "fresh h0 h s \<Longrightarrow> length h0 \<le> a \<Longrightarrow> fresh h0 (setIsPartial h a p) s"
  unfolding setIsPartial_def by (rule fresh_assign) (simp_all add: sumRefs_def split: obj.splits)

lemma fresh_setTypeConf: "fresh h0 h s \<Longrightarrow> length h0 \<le> a \<Longrightarrow> fresh h0 (setTypeConf h a t c) s"
  unfolding setTypeConf_def by (rule fresh_assign) (simp_all add: sumRefs_def split: obj.splits)

lemma fresh_setDetections: "fresh h0 h s \<Longrightarrow> length h0 \<le> a \<Longrightarrow> fresh h0 (setDetections h a d) s"
  unfolding setDetections_def by (rule fresh_assign) (simp_all add: sumRefs_def split: obj.splits)

lemma fresh_setSignals: "fresh h0 h s \<Longrightarrow> length h0 \<le> a \<Longrightarrow> fresh h0 (setSignals h a g) s"
  unfolding setSignals_def by (rule fresh_assign) (simp_all add: sumRefs_def split: obj.splits)

lemma fresh_pushOpt: "fresh h0 h s \<Longrightarrow> length h0 \<le> a \<Longrightarrow> fresh h0 (pushOpt h a e) s"
  by (simp add: pushOpt_def fresh_pushArr split: option.splits)

lemma fresh_setPrimaryRef:
  assumes "fresh h0 h s" "length h0 \<le> p"
  shows "fresh h0 (setPrimaryRef h s p) s"
proof -
  let ?f = "\<lambda>v. case v of SummaryObj t c bg pb ps pbs q \<Rightarrow> SummaryObj t c bg (Some p) ps pbs q
                           | _ \<Rightarrow> v"
  from assms(1) have s: "length h0 \<le> s" "s < length h" and e: "extends h0 h"
    by (simp_all add: fresh_def)
  have "assign h s ?f ! s = ?f (h ! s)" using s by (simp add: assign_def)
  moreover have "sumRefs (?f (h ! s))
       = (case sumRefs (h ! s) of None \<Rightarrow> None | Some r \<Rightarrow> Some (Some p, snd r))"
    by (simp add: sumRefs_def split: obj.splits)
  ultimately show ?thesis
    using assms s e unfolding setPrimaryRef_def
    by (auto simp: fresh_def extends_assign length_assign split: option.splits)
qed

lemma fresh_setSummaryPartial: "fresh h0 h s \<Longrightarrow> fresh h0 (setSummaryPartial h s p) s"
  by (auto simp: setSummaryPartial_def qualityRef_def fresh_def[of h0 h s]
      intro!: fresh_setIsPartial split: option.splits)

lemma fresh_primaryRef: "fresh h0 h s \<Longrightarrow> primaryRef h s = Some p \<Longrightarrow> length h0 \<le> p"
  by (auto simp: fresh_def primaryRef_def split: option.splits)

lemma fresh_copySummary: "fresh h (fst (copySummary h s)) (snd (copySummary h s))"
  by (simp add: copySummary_def Let_def fresh_def extends_def alloc_def sumRefs_def nth_append
      split: obj.splits option.splits)

lemma fresh_newDet: "fresh h0 h s \<Longrightarrow> fresh h0 (fst (newDet h d)) s"
  by (simp add: newDet_def Let_def fresh_alloc)

lemma newDet_addr: "snd (newDet h d) = Suc (length h)"
  by (simp add: newDet_def Let_def length_alloc)

lemma fresh_filterSort: "fresh h0 h s \<Longrightarrow> fresh h0 (filterSort h ds p) s"
  by (simp add: filterSort_def Let_def fresh_setArr fresh_alloc fresh_length)

lemma fresh_barCopy: "fresh h0 h s \<Longrightarrow> fresh h0 (fst (barCopy h raw ok)) s"
proof -
  assume f: "fresh h0 h s"
  have "length h0 \<le> snd (newDet h d)" for d
    using fresh_length[OF f] by (simp add: newDet_addr)
  with f show ?thesis
    by (simp add: barCopy_def Let_def fresh_setMeta fresh_newDet split: option.splits)
qed

lemma fresh_pushSplit:
  "fresh h0 h s \<Longrightarrow> length h0 \<le> a \<Longrightarrow> length h0 \<le> b \<Longrightarrow> fresh h0 (pushSplit a b h x) s"
  by (simp add: pushSplit_def fresh_pushArr)

lemma fresh_foldl_pushSplit:
  "fresh h0 h s \<Longrightarrow> length h0 \<le> a \<Longrightarrow> length h0 \<le> b \<Longrightarrow> fresh h0 (foldl (pushSplit a b) h xs) s"
  by (induction xs arbitrary: h) (simp_all add: fresh_pushSplit)

lemma inv_beginS: "inv h (beginS cfg h ia)"
proof -
  let ?c = "case summaryOf h ia of None \<Rightarrow> (alloc h (ArrObj []), length h) | Some s \<Rightarrow> copySummary h s"
  have c: "fresh h (fst ?c) (snd ?c)"
  proof (cases "summaryOf h ia")
    case None
    then show ?thesis
      by (simp add: fresh_def extends_def alloc_def sumRefs_def)
  next
    case (Some s)
    then show ?thesis by (simp add: fresh_copySummary)
  qed
  then have "fresh h (setTypeConf (alloc (fst ?c) (ArrObj [])) (snd ?c) t k) (snd ?c)" for t k
    by (intro fresh_setTypeConf fresh_alloc) (simp_all add: fresh_def)
  moreover have "length h \<le> length (fst ?c)" using c by (rule fresh_length)
  ultimately show ?thesis by (simp add: inv_def beginS_def Let_def)
qed

lemma inv_adoptS: "inv h0 r \<Longrightarrow> inv h0 (adoptS primary r)"
  by (auto simp: inv_def adoptS_def fresh_alloc fresh_length intro!: fresh_setPrimaryRef
      split: option.splits)

lemma inv_clampS: "inv h0 r \<Longrightarrow> inv h0 (clampS cfg W H r)"
  by (auto simp: inv_def clampS_def Let_def
      intro!: fresh_setSummaryPartial fresh_setBox dest: fresh_primaryRef split: option.splits)

lemma inv_extractS: "inv h0 r \<Longrightarrow> inv h0 (extractS ia r)"
proof -
  assume i: "inv h0 r"
  then have f: "fresh h0 (heap r) (summaryRef r)" by (simp add: inv_def)
  note l = fresh_length[OF f]
  have "fresh h0 (foldl (pushSplit (length (heap r)) (length (heap r) + 1))
                   (alloc (alloc (heap r) (ArrObj [])) (ArrObj [])) xs) (summaryRef r)" for xs
    using l by (intro fresh_foldl_pushSplit fresh_alloc f) simp_all
  with l show ?thesis by (simp add: inv_def extractS_def Let_def)
qed

lemma inv_screenshotS: "inv h0 r \<Longrightarrow> inv h0 (screenshotS cfg ia r)"
proof -
  assume i: "inv h0 r"
  then have f: "fresh h0 (heap r) (summaryRef r)" and o: "length h0 \<le> outRef r"
    by (simp_all add: inv_def)
  from f have s: "length h0 \<le> summaryRef r" by (simp add: fresh_def)
  have step: "fresh h0 (case pbo of None \<Rightarrow> h | Some pb \<Rightarrow>
                  setPrimaryRef (alloc h (BoxObj pb)) (summaryRef r) (length h)) (summaryRef r)"
    if "fresh h0 h (summaryRef r)" for h pbo
    using that fresh_length[OF that]
    by (auto intro!: fresh_setPrimaryRef fresh_alloc split: option.splits)
  have chain: "fresh h0
      (setTypeConf
         (case pbo of None \<Rightarrow>
              filterSort (fst (barCopy (fst (barCopy (alloc (filterSort (heap r) ds p) v) raw1 ok1))
                                raw2 ok2)) ds' p'
          | Some pb \<Rightarrow>
              setPrimaryRef
                (alloc (filterSort (fst (barCopy (fst (barCopy (alloc (filterSort (heap r) ds p) v)
                          raw1 ok1)) raw2 ok2)) ds' p') (BoxObj pb))
                (summaryRef r)
                (length (filterSort (fst (barCopy (fst (barCopy (alloc (filterSort (heap r) ds p) v)
                          raw1 ok1)) raw2 ok2)) ds' p')))
         (summaryRef r) t k) (summaryRef r)" for pbo ds p v raw1 ok1 raw2 ok2 ds' p' t k
    by (intro fresh_setTypeConf step fresh_filterSort fresh_barCopy fresh_alloc f s)
  show ?thesis
    unfolding screenshotS_def Let_def inv_def
    using o i by (auto intro!: fresh_pushOpt chain simp: inv_def)
qed

lemma inv_resolveS: "inv h0 r \<Longrightarrow> inv h0 (resolveS cfg r)"
proof -
  assume i: "inv h0 r"
  then have f: "fresh h0 (heap r) (summaryRef r)" by (simp add: inv_def)
  from f have s: "length h0 \<le> summaryRef r" by (simp add: fresh_def)
  have "fresh h0 (setTypeConf (alloc (heap r) v) (summaryRef r) t k) (summaryRef r)" for v t k
    by (intro fresh_setTypeConf fresh_alloc f s)
  with i fresh_length[OF f] show ?thesis
    by (simp add: inv_def resolveS_def Let_def split: option.splits)
qed

lemma inv_replaceS: "inv h0 r \<Longrightarrow> inv h0 (replaceS cfg r)"
  by (auto simp: inv_def replaceS_def fresh_length
      intro!: fresh_setPrimaryRef fresh_alloc split: option.splits)

lemma inv_unknownS: "inv h0 r \<Longrightarrow> inv h0 (unknownS ia r)"
proof -
  assume i: "inv h0 r"
  then have f: "fresh h0 (heap r) (summaryRef r)" and o: "length h0 \<le> outRef r"
    by (simp_all add: inv_def)
  let ?s = "summaryRef r"
  have 1: "fresh h0 (fst (newDet (heap r) d)) ?s" for d by (rule fresh_newDet[OF f])
  have 2: "fresh h0 (case primaryRef h ?s of
                       None \<Rightarrow> setPrimaryRef (alloc h (BoxObj b)) ?s (length h)
                     | Some pa \<Rightarrow> h) ?s" if "fresh h0 h ?s" for h b
    using that fresh_length[OF that]
    by (auto intro!: fresh_setPrimaryRef fresh_alloc split: option.splits)
  note h2 = 2[OF 1]
  have a: "fresh h0 (setSummaryPartial (alloc
             (case primaryRef (fst (newDet (heap r) d)) ?s of
                None \<Rightarrow> setPrimaryRef (alloc (fst (newDet (heap r) d)) (BoxObj b)) ?s
                          (length (fst (newDet (heap r) d)))
              | Some pa \<Rightarrow> fst (newDet (heap r) d)) v) ?s p) ?s" for d b v p
    by (intro fresh_setSummaryPartial fresh_alloc h2)
  have b: "fresh h0 (setSummaryPartial
             (case primaryRef (fst (newDet (heap r) d)) ?s of
                None \<Rightarrow> setPrimaryRef (alloc (fst (newDet (heap r) d)) (BoxObj b)) ?s
                          (length (fst (newDet (heap r) d)))
              | Some pa \<Rightarrow> fst (newDet (heap r) d)) ?s p) ?s" for d b p
    by (intro fresh_setSummaryPartial h2)
  have c: "length h0 \<le> length
             (case primaryRef (fst (newDet (heap r) d)) ?s of
                None \<Rightarrow> setPrimaryRef (alloc (fst (newDet (heap r) d)) (BoxObj b)) ?s
                          (length (fst (newDet (heap r) d)))
              | Some pa \<Rightarrow> fst (newDet (heap r) d))" for d b
    by (rule fresh_length[OF h2])
  show ?thesis
    unfolding unknownS_def Let_def inv_def
    using i a b c by (simp add: inv_def)
qed

text \<open>The decisions that the store stages use are those of the stages on values.\<close>

lemma resolveStage_by_keep:
  "resolveStage cfg w =
     (case resolveKeep cfg w of
        None \<Rightarrow> w
      | Some keep \<Rightarrow>
          (let kept = filter (\<lambda>d. label d = keep \<or>
                                  (label d \<noteq> ''Document'' \<and> label d \<noteq> ''Receipt''))
                        (outDetections w);
               wantType = (if keep = ''Document'' then DOCUMENT else RECEIPT);
               conf = mathMax (map score (filter (\<lambda>d. label d = keep) (outDetections w)))
           in if documentType (wsummary w) \<noteq> wantType
              then w\<lparr>wsummary := (wsummary w)\<lparr>documentType := wantType, confidence := Some conf\<rparr>,
                     outDetections := kept, wnotes := wnotes w @ [NoteResolve keep]\<rparr>
              else w\<lparr>outDetections := kept\<rparr>))"
  by (simp add: resolveStage_def resolveKeep_def Let_def split: option.splits)

lemma replacePrimaryStage_by_best:
  "replacePrimaryStage cfg w =
     (case replaceBest cfg w of
        None \<Rightarrow> w
      | Some best \<Rightarrow>
          w\<lparr>wsummary := (wsummary w)\<lparr>primaryBox := Some (box best)\<rparr>,
            wnotes := wnotes w @ [NotePrimaryReplaced (wantedLabel (documentType (wsummary w)))]\<rparr>)"
  by (simp add: replacePrimaryStage_def replaceBest_def Let_def copy_def split: option.splits)
lemma resRefs_assign:
  "(\<And>v. resRefs (f v) = resRefs v) \<Longrightarrow> resRefs (assign h a f ! i) = resRefs (h ! i)"
  by (simp add: assign_def nth_list_update)

lemma resRefs_pushArr: "resRefs (pushArr h a e ! i) = resRefs (h ! i)"
  unfolding pushArr_def by (rule resRefs_assign) (simp add: resRefs_def split: obj.splits)

lemma resRefs_setSignals: "resRefs (setSignals h a g ! i) = resRefs (h ! i)"
  unfolding setSignals_def by (rule resRefs_assign) (simp add: resRefs_def split: obj.splits)

lemma resRefs_newDet: "i < length h \<Longrightarrow> resRefs (fst (newDet h d) ! i) = resRefs (h ! i)"
  by (simp add: newDet_def Let_def alloc_def nth_append)

lemma length_newDet: "length h \<le> length (fst (newDet h d))"
  by (simp add: newDet_def Let_def alloc_def)

lemma resRefs_setDetections_same:
  "resRefs (h ! a) = Some (s, d) \<Longrightarrow> resRefs (setDetections h a d ! i) = resRefs (h ! i)"
  by (auto simp: setDetections_def assign_def nth_list_update resRefs_def split: obj.splits)

text \<open>
  What \<^verbatim>\<open>out\<close> refers to when it is allocated: the summary and the array of the
  state, if the input is a result.
\<close>

lemma finishS_fresh:
  assumes "inv h0 r"
  shows "fresh h0 (fst (finishS cfg ia r)) (summaryRef r)"
    and "snd (finishS cfg ia r) = length (heap r)"
    and "resRefs (fst (finishS cfg ia r) ! snd (finishS cfg ia r)) = Some (s, d)
           \<Longrightarrow> s = summaryRef r \<and> d = outRef r"
proof -
  from assms have f: "fresh h0 (heap r) (summaryRef r)" and o: "length h0 \<le> outRef r"
    by (simp_all add: inv_def)
  let ?h = "heap r"
  let ?X = "case ?h ! ia of
              ResultObj src ts im s d sg mi \<Rightarrow> ResultObj src ts im (summaryRef r) (outRef r) sg mi
            | _ \<Rightarrow> ArrObj []"
  let ?h1 = "alloc ?h ?X"
  have l: "length h0 \<le> length ?h" by (rule fresh_length[OF f])
  have X: "resRefs ?X = None \<or> resRefs ?X = Some (summaryRef r, outRef r)"
    by (simp add: resRefs_def split: obj.splits)
  have at: "?h1 ! length ?h = ?X" by (rule nth_alloc_new)
  have f1: "fresh h0 ?h1 (summaryRef r)" by (rule fresh_alloc[OF f])
  define h2 where "h2 = (case (primaryBox (wsummary (workOf r)),
                               wantedLabel (documentType (wsummary (workOf r))),
                               detectionsOf ?h1 (length ?h)) of
                  (Some pb, Some lbl, Some da) \<Rightarrow>
                    (let h1' = setDetections ?h1 (length ?h) da
                     in if bestIouFor lbl pb (outDetections (workOf r)) \<ge> 90 / 100 then h1'
                        else (let c = newDet h1'
                                        \<lparr>label = lbl,
                                         score = orElse (confidence (wsummary (workOf r))) 0,
                                         box = pb,
                                         meta = Some (emptyMeta\<lparr>synthetic := Some True,
                                                  source := Some Src_refine,
                                                  reason := Some ''matches_primaryBox''\<rparr>)\<rparr>
                              in pushArr (fst c) da (snd c)))
                | _ \<Rightarrow> ?h1)"
  have da: "da = outRef r" if "detectionsOf ?h1 (length ?h) = Some da" for da
    using that X by (auto simp: detectionsOf_def at)
  have f2: "fresh h0 h2 (summaryRef r)"
    unfolding h2_def Let_def
    using l o f1
    by (auto split: option.splits dest!: da
        intro!: fresh_pushArr fresh_newDet fresh_setDetections)
  have r2: "resRefs (h2 ! length ?h) = resRefs ?X"
  proof -
    have "resRefs (setDetections ?h1 (length ?h) (outRef r) ! length ?h) = resRefs ?X"
      if "resRefs ?X = Some (summaryRef r, outRef r)"
      using resRefs_setDetections_same[of ?h1 "length ?h" "summaryRef r" "outRef r" "length ?h"]
        that at by simp
    moreover have "length ?h < length (setDetections ?h1 (length ?h) (outRef r))"
      by (simp add: setDetections_def length_assign length_alloc)
    ultimately show ?thesis
      unfolding h2_def Let_def
      using X at
      by (auto split: option.splits dest!: da
          simp: resRefs_pushArr resRefs_newDet detectionsOf_def)
  qed
  have fin: "fst (finishS cfg ia r) = (if keepDiagnostics cfg
                then setSignals h2 (length ?h)
                       (Some ((orElse (signalsAt h2 (length ?h))
                                 \<lparr>colors = None, classificationTopK = None, diagnostics = None\<rparr>)
                              \<lparr>diagnostics :=
                                 Some (orElse (Option.bind (signalsAt h2 (length ?h)) diagnostics) []
                                       @ wnotes (upsertPrimaryDetection (workOf r)
                                           (wantedLabel (documentType (wsummary (workOf r))))))\<rparr>))
                else h2)"
    by (simp add: finishS_def Let_def h2_def)
  show "fresh h0 (fst (finishS cfg ia r)) (summaryRef r)"
    unfolding fin using f2 l by (simp add: fresh_setSignals)
  show o2: "snd (finishS cfg ia r) = length (heap r)"
    by (simp add: finishS_def Let_def)
  assume "resRefs (fst (finishS cfg ia r) ! snd (finishS cfg ia r)) = Some (s, d)"
  then have "resRefs ?X = Some (s, d)"
    unfolding o2 fin using r2 by (simp add: resRefs_setSignals split: if_splits)
  with X show "s = summaryRef r \<and> d = outRef r" by auto
qed

lemma inv_pipeline:
  "inv h (unknownS ia (replaceS cfg (resolveS cfg (screenshotS cfg ia (extractS ia
            (clampS cfg W H (adoptS primary (beginS cfg h ia))))))))"
  by (intro inv_unknownS inv_replaceS inv_resolveS inv_screenshotS inv_extractS inv_clampS
      inv_adoptS inv_beginS)

text \<open>
  C6. \<^verbatim>\<open>refineDocumentAnalysis\<close> never changes its input. Run on any store \<open>h\<close>, with any
  address \<open>ia\<close> for the input and any options, the call leaves every object of \<open>h\<close> at
  its address with its content: the store after the call begins with \<open>h\<close>. That holds
  for the input's result object, its summary, its array of detections and every
  detection in it. The result of the call is a new object, and the summary and the array
  of detections that it refers to are new objects too; every assignment of the call
  went to an object that the call itself allocated.
\<close>

theorem refine_leaves_input_unchanged:
  "take (length h) (fst (refineStore h ia options)) = h \<and>
   length h \<le> snd (refineStore h ia options) \<and>
   (\<forall>s d. resRefs (fst (refineStore h ia options) ! snd (refineStore h ia options)) = Some (s, d)
            \<longrightarrow> length h \<le> s \<and> length h \<le> d)"
proof -
  let ?cfg = "buildConfig options"
  let ?input = "readResult h ia"
  let ?r9 = "unknownS ia (replaceS ?cfg (resolveS ?cfg (screenshotS ?cfg ia (extractS ia
            (clampS ?cfg (width (imageMeta ?input)) (height (imageMeta ?input))
               (adoptS (snd (snd (fst (pickMainType ?input (tol ?cfg) [])))) (beginS ?cfg h ia)))))))"
  have r: "refineStore h ia options = finishS ?cfg ia ?r9"
    by (simp add: refineStore_def Let_def)
  have i: "inv h ?r9" by (rule inv_pipeline)
  note fs = finishS_fresh[OF i, of ?cfg ia]
  from fs(1) have e: "take (length h) (fst (refineStore h ia options)) = h"
    unfolding r by (simp add: fresh_def extends_def)
  from i have l: "length h \<le> length (heap ?r9)" "length h \<le> summaryRef ?r9" "length h \<le> outRef ?r9"
    by (simp_all add: inv_def fresh_def extends_length)
  from fs(2) l(1) have a: "length h \<le> snd (refineStore h ia options)"
    unfolding r by simp
  have "length h \<le> s \<and> length h \<le> d"
    if "resRefs (fst (refineStore h ia options) ! snd (refineStore h ia options)) = Some (s, d)"
    for s d
    using fs(3)[OF that[unfolded r]] l by simp
  with e a show ?thesis by blast
qed

lemma exampleStore_run:
  "snd (refineStore exampleStore 7 None) = 20"
  "length exampleStore = 8"
  "readResult (fst (refineStore exampleStore 7 None)) 20
     = refineDocumentAnalysis (readResult exampleStore 7) None"
  "readResult (fst (refineStore exampleStore 7 None)) 7 = readResult exampleStore 7"
  "resRefs (fst (refineStore exampleStore 7 None) ! 20) = Some (9, 13)"
  "arrAt (fst (refineStore exampleStore 7 None)) 13 = [1, 17]"
  by code_simp+

theorem refine_leaves_input_unchanged_witness:
  "take 8 (fst (refineStore exampleStore 7 None)) = exampleStore \<and>
   snd (refineStore exampleStore 7 None) = 20 \<and>
   resRefs (fst (refineStore exampleStore 7 None) ! 20) = Some (9, 13) \<and>
   arrAt (fst (refineStore exampleStore 7 None)) 13 = [1, 17] \<and>
   readResult (fst (refineStore exampleStore 7 None)) 7 = readResult exampleStore 7 \<and>
   readResult (fst (refineStore exampleStore 7 None)) 20
     = refineDocumentAnalysis (readResult exampleStore 7) None"
  using refine_leaves_input_unchanged[of exampleStore 7 None]
  unfolding exampleStore_run by (simp add: exampleStore_run)

end
